theory Spec2Isabelle
  imports Main "HOL-Library.Sublist"
begin

section \<open>Time and durations\<close>

text \<open>
  Go's \<^verbatim>\<open>time.Time\<close> values are modelled by the instant they denote, counted in
  nanoseconds on the wall clock (every reading in the sources goes through \<^verbatim>\<open>.UTC()\<close>,
  which drops the monotonic part).  A \<^verbatim>\<open>time.Duration\<close> is a signed 64-bit count of
  nanoseconds; it is modelled by an integer, and the one place where the range matters,
  \<^verbatim>\<open>Time.Sub\<close>, saturates as the library does.
\<close>

type_synonym time = int
type_synonym duration = int

definition minDuration :: duration where
  "minDuration = - (2 ^ 63)"

definition maxDuration :: duration where
  "maxDuration = 2 ^ 63 - 1"

definition Nanosecond :: duration where
  "Nanosecond = 1"

definition Millisecond :: duration where
  "Millisecond = 1000000"

definition Second :: duration where
  "Second = 1000000000"

definition Minute :: duration where
  "Minute = 60 * Second"

text \<open>\<^verbatim>\<open>t.Sub(u)\<close>: the difference, clamped to the range of a duration.\<close>

definition time_Sub :: "time \<Rightarrow> time \<Rightarrow> duration" where
  "time_Sub t u =
     (let d = t - u
      in if d < minDuration then minDuration
         else if maxDuration < d then maxDuration
         else d)"

text \<open>\<^verbatim>\<open>t.Add(d)\<close>, \<^verbatim>\<open>t.After(u)\<close> and \<^verbatim>\<open>t.Before(u)\<close> on instants.\<close>

definition time_Add :: "time \<Rightarrow> duration \<Rightarrow> time" where
  "time_Add t d = t + d"

definition time_After :: "time \<Rightarrow> time \<Rightarrow> bool" where
  "time_After t u = (u < t)"

definition time_Before :: "time \<Rightarrow> time \<Rightarrow> bool" where
  "time_Before t u = (t < u)"

section \<open>Errors\<close>

text \<open>
  The sentinel errors of the package, the two ways the package wraps them, and the
  error-with-status pair that the verifier returns.  Errors that come out of a library
  are kept as their message.
\<close>

datatype sentinel =
    ErrMissingAuthHeader
  | ErrInvalidAuthHeader
  | ErrInvalidToken
  | ErrInvalidSignature
  | ErrNonceInvalid
  | ErrTimestampExpired
  | ErrTimestampFuture
  | ErrTimestampInvalid
  | ErrDomainNotAllowed
  | ErrDIDResolution
  | ErrJWTConfigMissing
  | ErrNonceValidatorMissing
  | ErrNonceValidatorFailure
  | ErrTokenCreation

datatype error =
    Sentinel sentinel
  | Wrapped sentinel string error
  | Errorf sentinel string
  | ErrorfW string error
  | ErrorNew string
  | ErrorWithStatus error int
  | Panic string

text \<open>
  \<^verbatim>\<open>Wrapped s m c\<close> is \<^verbatim>\<open>&wrappedAuthError{sentinel: s, message: m, cause: c}\<close>;
  \<^verbatim>\<open>Errorf s m\<close> is \<^verbatim>\<open>fmt.Errorf("%w: %s", s, m)\<close>; \<^verbatim>\<open>ErrorfW m c\<close> is
  \<^verbatim>\<open>fmt.Errorf(m + ": %w", c)\<close>; \<^verbatim>\<open>ErrorNew m\<close> is any other error value, kept as
  its message; \<^verbatim>\<open>ErrorWithStatus e code\<close> is \<^verbatim>\<open>&ErrorWithStatus{Err: e, StatusCode: code}\<close>.
  \<^verbatim>\<open>Panic m\<close> is not an error value: it marks a run-time panic (a method call on a nil
  interface), which ends the call without a result.
\<close>

definition WrapAuthError :: "sentinel \<Rightarrow> string \<Rightarrow> error option \<Rightarrow> error" where
  "WrapAuthError s message err =
     (case err of None \<Rightarrow> Sentinel s | Some c \<Rightarrow> Wrapped s message c)"

text \<open>
  \<^verbatim>\<open>errors.Is(e, s)\<close> for a sentinel \<open>s\<close>: the chain is followed through \<^verbatim>\<open>Unwrap\<close>,
  and a \<^verbatim>\<open>wrappedAuthError\<close> answers for its sentinel, not for its cause.
\<close>

fun errors_Is :: "error \<Rightarrow> sentinel \<Rightarrow> bool" where
  "errors_Is (Sentinel s') s = (s' = s)"
| "errors_Is (Wrapped s' m c) s = (s' = s)"
| "errors_Is (Errorf s' m) s = (s' = s)"
| "errors_Is (ErrorfW m c) s = errors_Is c s"
| "errors_Is (ErrorNew m) s = False"
| "errors_Is (ErrorWithStatus e code) s = errors_Is e s"
| "errors_Is (Panic m) s = False"

text \<open>The messages of the sentinel errors, and \<^verbatim>\<open>err.Error()\<close>.\<close>

fun sentinel_message :: "sentinel \<Rightarrow> string" where
  "sentinel_message ErrMissingAuthHeader = ''missing authorization header''"
| "sentinel_message ErrInvalidAuthHeader = ''invalid authorization header''"
| "sentinel_message ErrInvalidToken = ''invalid token''"
| "sentinel_message ErrInvalidSignature = ''signature verification failed''"
| "sentinel_message ErrNonceInvalid = ''invalid or expired nonce''"
| "sentinel_message ErrTimestampExpired = ''timestamp expired''"
| "sentinel_message ErrTimestampFuture = ''timestamp is in the future''"
| "sentinel_message ErrTimestampInvalid = ''invalid timestamp format''"
| "sentinel_message ErrDomainNotAllowed = ''domain not allowed''"
| "sentinel_message ErrDIDResolution = ''failed to resolve DID document''"
| "sentinel_message ErrJWTConfigMissing = ''JWT key not configured''"
| "sentinel_message ErrNonceValidatorMissing = ''nonce validator is required''"
| "sentinel_message ErrNonceValidatorFailure = ''nonce validator error''"
| "sentinel_message ErrTokenCreation = ''failed to create access token''"

fun error_Error :: "error \<Rightarrow> string" where
  "error_Error (Sentinel s) = sentinel_message s"
| "error_Error (Wrapped s m c) = (if m \<noteq> [] then m @ '': '' @ error_Error c else error_Error c)"
| "error_Error (Errorf s m) = sentinel_message s @ '': '' @ m"
| "error_Error (ErrorfW m c) = m @ '': '' @ error_Error c"
| "error_Error (ErrorNew m) = m"
| "error_Error (ErrorWithStatus e code) = error_Error e"
| "error_Error (Panic m) = m"

definition StatusUnauthorized :: int where
  "StatusUnauthorized = 401"

definition StatusForbidden :: int where
  "StatusForbidden = 403"

definition StatusBadRequest :: int where
  "StatusBadRequest = 400"

definition StatusInternalServerError :: int where
  "StatusInternalServerError = 500"

definition NewErrorWithStatus :: "error \<Rightarrow> int \<Rightarrow> error" where
  "NewErrorWithStatus e code = ErrorWithStatus e code"

text \<open>
  \<^verbatim>\<open>GetStatusCode(err, defaultCode)\<close>: the status of the first \<^verbatim>\<open>ErrorWithStatus\<close> on the
  \<^verbatim>\<open>Unwrap\<close> chain, else the default.
\<close>

fun GetStatusCode :: "error \<Rightarrow> int \<Rightarrow> int" where
  "GetStatusCode (ErrorWithStatus e code) d = code"
| "GetStatusCode (ErrorfW m c) d = GetStatusCode c d"
| "GetStatusCode (Sentinel s) d = d"
| "GetStatusCode (Wrapped s m c) d = d"
| "GetStatusCode (Errorf s m) d = d"
| "GetStatusCode (ErrorNew m) d = d"
| "GetStatusCode (Panic m) d = d"

section \<open>The in-memory nonce validator\<close>

text \<open>
  \<^verbatim>\<open>MemoryNonceValidator\<close> holds the map \<^verbatim>\<open>used\<close> from key to insertion time and the
  configured \<^verbatim>\<open>expiration\<close>.  The mutex serialises the calls, so one call is one step
  on this state.
\<close>

record MemoryNonceValidator =
  used :: "string \<rightharpoonup> time"
  expiration :: duration

definition NewMemoryNonceValidator :: "duration \<Rightarrow> MemoryNonceValidator" where
  "NewMemoryNonceValidator exp = \<lparr>used = Map.empty, expiration = exp\<rparr>"

text \<open>
  The clean-up loop of \<^verbatim>\<open>Validate\<close>: every entry \<open>k \<mapsto> t\<close> with
  \<^verbatim>\<open>now.Sub(t) > v.expiration\<close> is deleted.
\<close>

definition clean_expired :: "time \<Rightarrow> duration \<Rightarrow> (string \<rightharpoonup> time) \<Rightarrow> (string \<rightharpoonup> time)" where
  "clean_expired now exp m =
     (\<lambda>k. case m k of
            None \<Rightarrow> None
          | Some t \<Rightarrow> if exp < time_Sub now t then None else Some t)"

text \<open>
  \<^verbatim>\<open>Validate(ctx, did, nonce)\<close>; \<open>now\<close> is the reading \<^verbatim>\<open>time.Now().UTC()\<close> taken inside
  the call.  The result is the pair (accepted, error) together with the new state.
\<close>

definition Validate ::
  "MemoryNonceValidator \<Rightarrow> time \<Rightarrow> string \<Rightarrow> string
     \<Rightarrow> (bool \<times> error option) \<times> MemoryNonceValidator" where
  "Validate v now did nonce =
     (let key = did @ '':'' @ nonce;
          used1 = clean_expired now (expiration v) (used v)
      in if used1 key \<noteq> None
         then ((False, None), v\<lparr>used := used1\<rparr>)
         else ((True, None), v\<lparr>used := used1(key \<mapsto> now)\<rparr>))"


section \<open>Strings\<close>

text \<open>
  A Go string is modelled by the list of its bytes.  The functions of package
  \<^verbatim>\<open>strings\<close> that the sources call are given on ASCII text: white space is the six ASCII
  space characters, and case folding is folding of the letters \<open>A\<close> to \<open>Z\<close>.
\<close>

definition dq :: char where
  "dq = CHR 0x22"

definition isSpace :: "char \<Rightarrow> bool" where
  "isSpace c \<longleftrightarrow>
     c = CHR 0x09 \<or> c = CHR 0x0A \<or> c = CHR 0x0B \<or> c = CHR 0x0C \<or> c = CHR 0x0D
     \<or> c = CHR '' ''"

definition TrimSpace :: "string \<Rightarrow> string" where
  "TrimSpace s = rev (dropWhile isSpace (rev (dropWhile isSpace s)))"

definition HasPrefix :: "string \<Rightarrow> string \<Rightarrow> bool" where
  "HasPrefix s p = prefix p s"

definition TrimPrefix :: "string \<Rightarrow> string \<Rightarrow> string" where
  "TrimPrefix s p = (if prefix p s then drop (length p) s else s)"

definition toLower :: "char \<Rightarrow> char" where
  "toLower c =
     (if 65 \<le> (of_char c :: nat) \<and> (of_char c :: nat) \<le> 90
      then char_of ((of_char c :: nat) + 32) else c)"

definition EqualFold :: "string \<Rightarrow> string \<Rightarrow> bool" where
  "EqualFold s t \<longleftrightarrow> map toLower s = map toLower t"

text \<open>\<^verbatim>\<open>strings.Index(s, "#")\<close>, with \<open>None\<close> for the result \<open>-1\<close>.\<close>

fun Index :: "string \<Rightarrow> char \<Rightarrow> nat option" where
  "Index [] c = None"
| "Index (x # xs) c = (if x = c then Some 0 else map_option Suc (Index xs c))"

section \<open>The Authorization header\<close>

record AuthHeader =
  DID :: string
  Nonce :: string
  Timestamp :: string
  VerificationMethod :: string
  Signature :: string

definition quoted :: "string \<Rightarrow> string" where
  "quoted s = dq # s @ [dq]"

text \<open>
  \<^verbatim>\<open>(h *AuthHeader) String()\<close>: the format string
  \<^verbatim>\<open>DIDWba did="%s", nonce="%s", timestamp="%s", verification_method="%s", signature="%s"\<close>.
\<close>

definition AuthHeader_String :: "AuthHeader \<Rightarrow> string" where
  "AuthHeader_String h =
     ''DIDWba did='' @ quoted (DID h) @
     '', nonce='' @ quoted (Nonce h) @
     '', timestamp='' @ quoted (Timestamp h) @
     '', verification_method='' @ quoted (VerificationMethod h) @
     '', signature='' @ quoted (Signature h)"

text \<open>
  The regular expression of \<^verbatim>\<open>parseAuthHeader\<close> is
  \<^verbatim>\<open>(did|nonce|timestamp|verification_method|signature)="([^"]*)"\<close>.
  \<open>match_value\<close> matches \<^verbatim>\<open>([^"]*)"\<close> on the text after the opening quote,
  \<open>match_alt\<close> matches one alternative of the first group followed by the rest of the
  expression, and \<open>match_here\<close> tries the alternatives in their order at one position.
  A match gives the two groups and the text after the match.
\<close>

definition header_keys :: "string list" where
  "header_keys = [''did'', ''nonce'', ''timestamp'', ''verification_method'', ''signature'']"

definition match_value :: "string \<Rightarrow> (string \<times> string) option" where
  "match_value s =
     (case dropWhile (\<lambda>c. c \<noteq> dq) s of
        [] \<Rightarrow> None
      | c # rest \<Rightarrow> Some (takeWhile (\<lambda>c. c \<noteq> dq) s, rest))"

definition match_alt :: "string \<Rightarrow> string \<Rightarrow> (string \<times> string \<times> string) option" where
  "match_alt k s =
     (if prefix (k @ ''='' @ [dq]) s
      then (case match_value (drop (length k + 2) s) of
              None \<Rightarrow> None
            | Some (v, rest) \<Rightarrow> Some (k, v, rest))
      else None)"

fun match_here :: "string list \<Rightarrow> string \<Rightarrow> (string \<times> string \<times> string) option" where
  "match_here [] s = None"
| "match_here (k # ks) s =
     (case match_alt k s of Some m \<Rightarrow> Some m | None \<Rightarrow> match_here ks s)"

text \<open>
  \<^verbatim>\<open>re.FindAllStringSubmatch(header, -1)\<close>: the successive leftmost matches, none
  overlapping another; after a match the search goes on behind it, and where no match
  starts the search moves one character on.
\<close>

function FindAllStringSubmatch :: "string \<Rightarrow> (string \<times> string) list" where
  "FindAllStringSubmatch [] = []"
| "FindAllStringSubmatch (c # cs) =
     (case match_here header_keys (c # cs) of
        Some (k, v, rest) \<Rightarrow> (k, v) # FindAllStringSubmatch rest
      | None \<Rightarrow> FindAllStringSubmatch cs)"
  by pat_completeness auto
termination
proof (relation "measure length")
  show "wf (measure length)" by simp
next
  fix c :: char and cs :: string
  show "(cs, c # cs) \<in> measure length" by simp
next
  fix c :: char and cs :: string and m :: "string \<times> string \<times> string"
    and k :: string and y :: "string \<times> string" and v rest :: string
  assume m: "match_here header_keys (c # cs) = Some m" "(k, y) = m" "(v, rest) = y"
  have value_shorter: "length r < length s" if "match_value s = Some (w, r)" for s w r
  proof -
    from that obtain d where "dropWhile (\<lambda>c. c \<noteq> dq) s = d # r"
      by (auto simp: match_value_def split: list.splits)
    then have "Suc (length r) = length (dropWhile (\<lambda>c. c \<noteq> dq) s)" by simp
    also have "\<dots> \<le> length s" by (rule length_dropWhile_le)
    finally show ?thesis by simp
  qed
  have alt_shorter: "length r < length s" if "match_alt a s = Some (b, w, r)" for a s b w r
  proof -
    from that have "match_value (drop (length a + 2) s) = Some (w, r)"
      by (auto simp: match_alt_def split: if_splits option.splits)
    then have "length r < length (drop (length a + 2) s)" by (rule value_shorter)
    then show ?thesis by simp
  qed
  have here_shorter: "length r < length s" if "match_here ks s = Some (b, w, r)" for ks s b w r
    using that by (induction ks) (auto split: option.splits dest: alt_shorter)
  from m have "match_here header_keys (c # cs) = Some (k, v, rest)" by simp
  then have "length rest < length (c # cs)" by (rule here_shorter)
  then show "(rest, c # cs) \<in> measure length" by simp
qed

text \<open>The \<^verbatim>\<open>switch match[1]\<close> of the loop over the matches.\<close>

definition assign_match :: "AuthHeader \<Rightarrow> string \<times> string \<Rightarrow> AuthHeader" where
  "assign_match parts m =
     (if fst m = ''did'' then parts\<lparr>DID := snd m\<rparr>
      else if fst m = ''nonce'' then parts\<lparr>Nonce := snd m\<rparr>
      else if fst m = ''timestamp'' then parts\<lparr>Timestamp := snd m\<rparr>
      else if fst m = ''verification_method'' then parts\<lparr>VerificationMethod := snd m\<rparr>
      else if fst m = ''signature'' then parts\<lparr>Signature := snd m\<rparr>
      else parts)"

definition empty_AuthHeader :: AuthHeader where
  "empty_AuthHeader =
     \<lparr>DID = [], Nonce = [], Timestamp = [], VerificationMethod = [], Signature = []\<rparr>"

definition parseAuthHeader :: "string \<Rightarrow> error + AuthHeader" where
  "parseAuthHeader header0 =
     (let header = TrimSpace header0
      in if header = [] then Inl (ErrorNew ''authorization header cannot be empty'')
         else if \<not> HasPrefix header ''DIDWba''
         then Inl (ErrorNew ''authorization header must start with 'DIDWba' '')
         else
           (let header1 = TrimSpace (TrimPrefix header ''DIDWba'');
                matches = FindAllStringSubmatch header1
            in if length matches = 0 then Inl (ErrorNew ''invalid auth header format'')
               else
                 (let parts = foldl assign_match empty_AuthHeader matches
                  in if DID parts = [] \<or> Nonce parts = [] \<or> Timestamp parts = []
                        \<or> VerificationMethod parts = [] \<or> Signature parts = []
                     then Inl (ErrorNew ''invalid auth header format'')
                     else Inr parts)))"

text \<open>
  A header value is well formed when it is non-empty and holds no double quote; the
  alphabets of the five values (UUID, RFC 3339 timestamp, fragment, DID, base64url) have
  no double quote.
\<close>

definition no_quote :: "string \<Rightarrow> bool" where
  "no_quote s \<longleftrightarrow> s \<noteq> [] \<and> dq \<notin> set s"


section \<open>Keys, documents and the libraries\<close>

type_synonym bytes = string

text \<open>
  An elliptic curve is known to the package by its name and by \<^verbatim>\<open>Params().BitSize\<close>.
  \<^verbatim>\<open>crypto.Secp256k1()\<close> is the curve of go-ethereum.
\<close>

datatype curve = Curve_Params string nat

fun BitSize :: "curve \<Rightarrow> nat" where
  "BitSize (Curve_Params name bits) = bits"

definition Secp256k1 :: curve where
  "Secp256k1 = Curve_Params ''secp256k1'' 256"

record PublicKey =
  Curve :: curve
  X :: int
  Y :: int

record PrivateKey = PublicKey +
  D :: int

record JWK =
  Kty :: string
  Crv :: string
  jwk_X :: string
  jwk_Y :: string
  Kid :: string

text \<open>
  A value of type \<^verbatim>\<open>any\<close>, by its dynamic type: the types that decoded JSON has, and the
  struct \<^verbatim>\<open>JWK\<close>, which \<^verbatim>\<open>CreateDIDWBADocument\<close> stores in a method map.  A
  \<^verbatim>\<open>map[string]any\<close> is the list of its entries.
\<close>

datatype any =
    AString string
  | ANumber int
  | ABool bool
  | ANil
  | AList "any list"
  | AMap "(string \<times> any) list"
  | AJWK JWK

record Service =
  service_ID :: string
  service_Type :: string
  ServiceEndpoint :: string

record DIDWBADocument =
  doc_Context :: "string list"
  doc_ID :: string
  doc_VerificationMethod :: "(string \<times> any) list list"
  doc_Authentication :: "string list"
  doc_Service :: "Service list"

record authPayload =
  payload_Nonce :: string
  payload_Time :: string
  payload_Service :: string
  payload_DID :: string

text \<open>
  A key for the access tokens is a value of type \<^verbatim>\<open>any\<close>; what the model keeps of it is
  the parser that produced it and the key material.  A parsed token shows its signing
  method, whether it is valid, and its claims when they are \<^verbatim>\<open>jwt.MapClaims\<close>.
\<close>

datatype jwt_key =
    RSAKey bytes
  | ECKey bytes
  | EdKey bytes
  | ANPKey PrivateKey
  | PKIXKey string bytes

record jwt_Token =
  Method :: string
  Valid :: bool
  Claims :: "(string \<times> any) list option"

text \<open>
  An HTTP response, as far as the sources look at it: the status, the header (one value
  for a name, as \<^verbatim>\<open>Header.Get\<close> gives it) and what reading the body to its end gives.
\<close>

record http_Response =
  resp_StatusCode :: int
  resp_Header :: "string \<rightharpoonup> string"
  resp_Body :: "error + bytes"

text \<open>
  The functions of other packages that the signing and verification code calls.  They
  are parameters of the model.  A function that reads the clock, a random source or the
  network takes the state \<open>'w\<close> of the world and returns the new one.
\<close>

record 'w libs =
  sha256_Sum256 :: "bytes \<Rightarrow> bytes"
  ecdsa_Sign :: "PrivateKey \<Rightarrow> bytes \<Rightarrow> 'w \<Rightarrow> (error + int \<times> int) \<times> 'w"
  ecdsa_Verify :: "PublicKey \<Rightarrow> bytes \<Rightarrow> int \<Rightarrow> int \<Rightarrow> bool"
  base64_EncodeToString :: "bytes \<Rightarrow> string"
  base64_DecodeString :: "string \<Rightarrow> error + bytes"
  sonic_Marshal_payload :: "authPayload \<Rightarrow> error + bytes"
  jsoncanonicalizer_Transform :: "bytes \<Rightarrow> error + bytes"
  sonic_Marshal_map :: "(string \<times> any) list \<Rightarrow> error + bytes"
  sonic_Unmarshal_JWK :: "bytes \<Rightarrow> error + JWK"
  IsOnCurve :: "curve \<Rightarrow> int \<Rightarrow> int \<Rightarrow> bool"
  uuid_NewString :: "'w \<Rightarrow> string \<times> 'w"
  time_Now :: "'w \<Rightarrow> time \<times> 'w"
  time_Format :: "time \<Rightarrow> string"
  time_Parse :: "string \<Rightarrow> error + time"
  jwt_GetSigningMethod :: "string \<Rightarrow> string option"
  jwt_Parse :: "string \<Rightarrow> (string \<Rightarrow> error + jwt_key) \<Rightarrow> 'w \<Rightarrow> (error + jwt_Token) \<times> 'w"
  jwt_SignedString :: "string option \<Rightarrow> (string \<times> any) list \<Rightarrow> jwt_key \<Rightarrow> error + string"
  jwt_ParseRSAPrivateKeyFromPEM :: "bytes \<Rightarrow> error + bytes"
  jwt_ParseECPrivateKeyFromPEM :: "bytes \<Rightarrow> error + bytes"
  jwt_ParseEdPrivateKeyFromPEM :: "bytes \<Rightarrow> error + bytes"
  anpcrypto_PrivateKeyFromPEM :: "bytes \<Rightarrow> error + PrivateKey"
  jwt_ParseRSAPublicKeyFromPEM :: "bytes \<Rightarrow> error + bytes"
  jwt_ParseECPublicKeyFromPEM :: "bytes \<Rightarrow> error + bytes"
  jwt_ParseEdPublicKeyFromPEM :: "bytes \<Rightarrow> error + bytes"
  pem_Decode :: "bytes \<Rightarrow> bytes option"
  x509_ParsePKIXPublicKey :: "bytes \<Rightarrow> error + string \<times> bytes"
  url_PathUnescape :: "string \<Rightarrow> error + string"
  url_Parse_Host :: "string \<Rightarrow> error + string"
  defaultHTTPClient_Get :: "string \<Rightarrow> 'w \<Rightarrow> (error + http_Response) \<times> 'w"
  sonic_Unmarshal_doc :: "bytes \<Rightarrow> error + DIDWBADocument"
  os_ReadFile :: "string \<Rightarrow> 'w \<Rightarrow> (error + bytes) \<times> 'w"
  url_PathEscape :: "string \<Rightarrow> string"
  net_ParseIP :: "string \<Rightarrow> bool"
  ecdsa_GenerateKey :: "curve \<Rightarrow> 'w \<Rightarrow> (error + PrivateKey) \<times> 'w"
  sonic_Marshal_any :: "any \<Rightarrow> error + bytes"

section \<open>Big integers as bytes\<close>

text \<open>\<^verbatim>\<open>(*big.Int).Bytes()\<close>: the big-endian bytes of the absolute value, none for zero.\<close>

fun nat_Bytes :: "nat \<Rightarrow> bytes" where
  "nat_Bytes n = (if n = 0 then [] else nat_Bytes (n div 256) @ [char_of (n mod 256)])"

declare nat_Bytes.simps [simp del]

definition big_Bytes :: "int \<Rightarrow> bytes" where
  "big_Bytes i = nat_Bytes (nat \<bar>i\<bar>)"

text \<open>\<^verbatim>\<open>new(big.Int).SetBytes(b)\<close>: the big-endian unsigned value.\<close>

definition big_SetBytes :: "bytes \<Rightarrow> int" where
  "big_SetBytes b = foldl (\<lambda>a c. a * 256 + of_char c) 0 b"

section \<open>The signature on the wire\<close>

definition marshalSignature :: "'w libs \<Rightarrow> curve option \<Rightarrow> int \<Rightarrow> int \<Rightarrow> error + string" where
  "marshalSignature L curve r s =
     (case curve of
        None \<Rightarrow> Inl (ErrorNew ''elliptic curve is required'')
      | Some cv \<Rightarrow>
          (let size = (BitSize cv + 7) div 8;
               rb = big_Bytes r;
               sb = big_Bytes s
           in if size < length rb \<or> size < length sb
              then Inl (ErrorNew ''signature component larger than curve size'')
              else Inr (base64_EncodeToString L
                     (replicate (size - length rb) (CHR 0x00) @ rb @
                      replicate (size - length sb) (CHR 0x00) @ sb))))"

definition unmarshalSignature :: "curve \<Rightarrow> bytes \<Rightarrow> error + int \<times> int" where
  "unmarshalSignature cv sig =
     (let size = (BitSize cv + 7) div 8
      in if length sig \<noteq> size * 2
         then Inl (ErrorNew ''invalid signature length'')
         else Inr (big_SetBytes (take size sig), big_SetBytes (drop size sig)))"

section \<open>Signing\<close>

text \<open>\<^verbatim>\<open>(p *authPayload) marshal()\<close>: marshal to JSON, then canonicalize.\<close>

definition payload_marshal :: "'w libs \<Rightarrow> authPayload \<Rightarrow> error + bytes" where
  "payload_marshal L p =
     (case sonic_Marshal_payload L p of
        Inl e \<Rightarrow> Inl e
      | Inr jsonBytes \<Rightarrow> jsoncanonicalizer_Transform L jsonBytes)"

definition signPayload ::
  "'w libs \<Rightarrow> PrivateKey option \<Rightarrow> authPayload \<Rightarrow> 'w \<Rightarrow> (error + string) \<times> 'w" where
  "signPayload L privateKey payload w =
     (case privateKey of
        None \<Rightarrow> (Inl (ErrorNew ''private key is required''), w)
      | Some key \<Rightarrow>
          (case payload_marshal L payload of
             Inl e \<Rightarrow> (Inl (ErrorfW ''failed to marshal payload'' e), w)
           | Inr data \<Rightarrow>
               (let digest = sha256_Sum256 L data;
                    finalDigest = sha256_Sum256 L digest
                in case ecdsa_Sign L key finalDigest w of
                     (Inl e, w1) \<Rightarrow> (Inl (ErrorfW ''failed to sign payload'' e), w1)
                   | (Inr (r, s), w1) \<Rightarrow> (marshalSignature L (Some (Curve key)) r s, w1))))"

section \<open>Verification methods\<close>

text \<open>\<^verbatim>\<open>m[k]\<close> on a \<^verbatim>\<open>map[string]any\<close>, and the type assertions on the result.\<close>

definition as_string :: "any option \<Rightarrow> string option" where
  "as_string a = (case a of Some (AString s) \<Rightarrow> Some s | _ \<Rightarrow> None)"

definition as_map :: "any option \<Rightarrow> (string \<times> any) list option" where
  "as_map a = (case a of Some (AMap m) \<Rightarrow> Some m | _ \<Rightarrow> None)"

definition VerificationMethodEcdsaSecp256k1 :: string where
  "VerificationMethodEcdsaSecp256k1 = ''EcdsaSecp256k1VerificationKey2019''"

definition JWKTypeEC :: string where
  "JWKTypeEC = ''EC''"

definition JWKCurveSecp256k1 :: string where
  "JWKCurveSecp256k1 = ''secp256k1''"

text \<open>
  The interface \<^verbatim>\<open>VerificationMethod\<close> has one implementation, which holds the public
  key.
\<close>

datatype VerificationMethod_impl = EcdsaSecp256k1VerificationKey2019 PublicKey

fun GetPublicKey :: "VerificationMethod_impl \<Rightarrow> PublicKey" where
  "GetPublicKey (EcdsaSecp256k1VerificationKey2019 pk) = pk"

text \<open>
  \<^verbatim>\<open>VerifySignature(content, signature)\<close>: decode the signature, split it into \<open>r\<close> and
  \<open>s\<close>, hash the content once and call \<^verbatim>\<open>ecdsa.Verify\<close>.
\<close>

definition VerifySignature :: "'w libs \<Rightarrow> VerificationMethod_impl \<Rightarrow> bytes \<Rightarrow> string \<Rightarrow> bool" where
  "VerifySignature L v content signature =
     (case base64_DecodeString L signature of
        Inl e \<Rightarrow> False
      | Inr sigBytes \<Rightarrow>
          (case unmarshalSignature (Curve (GetPublicKey v)) sigBytes of
             Inl e \<Rightarrow> False
           | Inr (r, s) \<Rightarrow>
               (let digest = sha256_Sum256 L content
                in ecdsa_Verify L (GetPublicKey v) digest r s)))"

definition NewEcdsaSecp256k1VerificationKey2019 ::
  "'w libs \<Rightarrow> (string \<times> any) list \<Rightarrow> error + VerificationMethod_impl" where
  "NewEcdsaSecp256k1VerificationKey2019 L methodMap =
     (case as_map (map_of methodMap ''publicKeyJwk'') of
        None \<Rightarrow> Inl (ErrorNew ''publicKeyJwk not found or not a map'')
      | Some jwkMap \<Rightarrow>
          (case sonic_Marshal_map L jwkMap of
             Inl e \<Rightarrow> Inl (ErrorfW ''failed to marshal publicKeyJwk'' e)
           | Inr jwkBytes \<Rightarrow>
               (case sonic_Unmarshal_JWK L jwkBytes of
                  Inl e \<Rightarrow> Inl (ErrorfW ''failed to unmarshal publicKeyJwk'' e)
                | Inr jwk \<Rightarrow>
                    if Kty jwk \<noteq> JWKTypeEC \<or> Crv jwk \<noteq> JWKCurveSecp256k1
                    then Inl (ErrorNew ''unsupported JWK parameters for secp256k1'')
                    else
                      (case base64_DecodeString L (jwk_X jwk) of
                         Inl e \<Rightarrow> Inl (ErrorfW ''invalid JWK 'x' coordinate'' e)
                       | Inr xBytes \<Rightarrow>
                           (case base64_DecodeString L (jwk_Y jwk) of
                              Inl e \<Rightarrow> Inl (ErrorfW ''invalid JWK 'y' coordinate'' e)
                            | Inr yBytes \<Rightarrow>
                                (let x = big_SetBytes xBytes;
                                     y = big_SetBytes yBytes;
                                     cv = Secp256k1
                                 in if \<not> IsOnCurve L cv x y
                                    then Inl (ErrorNew
                                      ''public key is not on the secp256k1 curve'')
                                    else Inr (EcdsaSecp256k1VerificationKey2019
                                      \<lparr>Curve = cv, X = x, Y = y\<rparr>)))))))"

text \<open>
  \<^verbatim>\<open>CreateVerificationMethod\<close>: the factory map has the one entry
  \<^verbatim>\<open>VerificationMethodEcdsaSecp256k1\<close>.
\<close>

definition CreateVerificationMethod ::
  "'w libs \<Rightarrow> (string \<times> any) list \<Rightarrow> error + VerificationMethod_impl" where
  "CreateVerificationMethod L methodMap =
     (case as_string (map_of methodMap ''type'') of
        None \<Rightarrow> Inl (ErrorNew ''verification method 'type' not found or not a string'')
      | Some methodType \<Rightarrow>
          if methodType = VerificationMethodEcdsaSecp256k1
          then NewEcdsaSecp256k1VerificationKey2019 L methodMap
          else Inl (ErrorNew (''unsupported verification method type: '' @ methodType)))"

text \<open>
  \<^verbatim>\<open>selectVerificationMethodForFragment\<close>: the first method of the document whose
  \<^verbatim>\<open>id\<close> is a string equal to \<^verbatim>\<open>doc.ID + "#" + fragment\<close>.
\<close>

definition selectVerificationMethodForFragment ::
  "DIDWBADocument \<Rightarrow> string \<Rightarrow> error + (string \<times> any) list \<times> string" where
  "selectVerificationMethodForFragment doc fragment =
     (if fragment = [] then Inl (ErrorNew ''verification method fragment cannot be empty'')
      else
        (let verificationMethodID = doc_ID doc @ ''#'' @ fragment
         in case find (\<lambda>method. as_string (map_of method ''id'') = Some verificationMethodID)
                   (doc_VerificationMethod doc) of
              Some method \<Rightarrow> Inr (method, fragment)
            | None \<Rightarrow> Inl (ErrorNew (''verification method not found: '' @ fragment))))"

definition selectVerificationMethod ::
  "DIDWBADocument \<Rightarrow> error + (string \<times> any) list \<times> string" where
  "selectVerificationMethod doc =
     (case doc_Authentication doc of
        [] \<Rightarrow> Inl (ErrorNew ''did document missing authentication methods'')
      | reference # others \<Rightarrow>
          (let fragment =
                 (case Index reference (CHR ''#'') of
                    Some idx \<Rightarrow> drop (idx + 1) reference
                  | None \<Rightarrow> reference)
           in selectVerificationMethodForFragment doc fragment))"

section \<open>Generating the header\<close>

definition GenerateAuthHeader ::
  "'w libs \<Rightarrow> PrivateKey option \<Rightarrow> DIDWBADocument option \<Rightarrow> string \<Rightarrow> 'w
     \<Rightarrow> (error + AuthHeader) \<times> 'w" where
  "GenerateAuthHeader L privateKey doc0 serviceDomain w =
     (case doc0 of
        None \<Rightarrow> (Inl (ErrorNew ''DID document is required''), w)
      | Some doc \<Rightarrow>
          (case selectVerificationMethod doc of
             Inl e \<Rightarrow> (Inl e, w)
           | Inr (methodMap, fragment) \<Rightarrow>
               (let methodType =
                      (case as_string (map_of methodMap ''type'') of
                         Some t \<Rightarrow> t | None \<Rightarrow> [])
                in if methodType \<noteq> ''EcdsaSecp256k1VerificationKey2019''
                   then (Inl (ErrorNew
                     (''unsupported verification method type for signing: '' @ methodType)), w)
                   else
                     (let (nonce, w1) = uuid_NewString L w;
                          (now, w2) = time_Now L w1;
                          timestamp = time_Format L now;
                          payload = \<lparr>payload_Nonce = nonce, payload_Time = timestamp,
                                     payload_Service = serviceDomain,
                                     payload_DID = doc_ID doc\<rparr>
                      in case signPayload L privateKey payload w2 of
                           (Inl e, w3) \<Rightarrow> (Inl e, w3)
                         | (Inr signature, w3) \<Rightarrow>
                             (Inr \<lparr>DID = doc_ID doc, Nonce = nonce, Timestamp = timestamp,
                                   VerificationMethod = fragment, Signature = signature\<rparr>,
                              w3)))))"


section \<open>Creating a DID document\<close>

text \<open>\<^verbatim>\<open>fmt.Sprintf("%d", n)\<close> for an integer.\<close>

fun decimal_nat :: "nat \<Rightarrow> string" where
  "decimal_nat n =
     (if n < 10 then [char_of (48 + n)]
      else decimal_nat (n div 10) @ [char_of (48 + n mod 10)])"

declare decimal_nat.simps [simp del]

definition decimal :: "int \<Rightarrow> string" where
  "decimal i = (if i < 0 then ''-'' @ decimal_nat (nat (- i)) else decimal_nat (nat i))"

text \<open>\<^verbatim>\<open>strings.Join(elems, sep)\<close>.\<close>

fun Join :: "string list \<Rightarrow> string \<Rightarrow> string" where
  "Join [] sep = []"
| "Join [x] sep = x"
| "Join (x # y # zs) sep = x @ sep @ Join (y # zs) sep"

definition validateHostname :: "'w libs \<Rightarrow> string \<Rightarrow> error option" where
  "validateHostname L hostname =
     (if hostname = [] then Some (ErrorNew ''hostname cannot be empty'')
      else if net_ParseIP L hostname then Some (ErrorNew ''hostname cannot be an IP address'')
      else None)"

definition buildDID :: "'w libs \<Rightarrow> string \<Rightarrow> int option \<Rightarrow> string list \<Rightarrow> error + string" where
  "buildDID L hostname port pathSegments =
     (if hostname = [] then Inl (ErrorNew ''hostname cannot be empty'')
      else
        (let didBase0 = ''did:wba:'' @ hostname;
             didBase = (case port of
                          None \<Rightarrow> didBase0
                        | Some p \<Rightarrow> didBase0 @ url_PathEscape L ('':'' @ decimal p));
             cleaned = map (url_PathEscape L)
                         (filter (\<lambda>trimmed. trimmed \<noteq> []) (map TrimSpace pathSegments))
         in if 0 < length pathSegments \<and> 0 < length cleaned
            then Inr (didBase @ '':'' @ Join cleaned '':'')
            else Inr didBase))"

text \<open>
  \<^verbatim>\<open>padAndEncode(value, size)\<close>.  When the value has more than \<open>size\<close> bytes the slice
  expression \<^verbatim>\<open>padded[size-len(buf):]\<close> panics.
\<close>

definition padAndEncode :: "'w libs \<Rightarrow> int \<Rightarrow> nat \<Rightarrow> error + string" where
  "padAndEncode L val sz =
     (let buf = big_Bytes val
      in if sz < length buf then Inl (Panic ''slice bounds out of range'')
         else Inr (base64_EncodeToString L (replicate (sz - length buf) (CHR 0x00) @ buf)))"

definition compressPoint :: "PublicKey \<Rightarrow> error + bytes" where
  "compressPoint publicKey =
     (let size = (BitSize (Curve publicKey) + 7) div 8;
          tag = (if Y publicKey mod 2 = 0 then CHR 0x02 else CHR 0x03);
          xBytes = big_Bytes (X publicKey)
      in if size < length xBytes then Inl (Panic ''slice bounds out of range'')
         else Inr (tag # replicate (size - length xBytes) (CHR 0x00) @ xBytes))"

definition hashSHA256 :: "'w libs \<Rightarrow> bytes \<Rightarrow> bytes" where
  "hashSHA256 L data = sha256_Sum256 L data"

definition buildPublicKeyJWK :: "'w libs \<Rightarrow> PublicKey \<Rightarrow> error + JWK" where
  "buildPublicKeyJWK L publicKey =
     (let coordSize = (BitSize (Curve publicKey) + 7) div 8
      in case padAndEncode L (X publicKey) coordSize of
           Inl e \<Rightarrow> Inl e
         | Inr x \<Rightarrow>
             (case padAndEncode L (Y publicKey) coordSize of
                Inl e \<Rightarrow> Inl e
              | Inr y \<Rightarrow>
                  (case compressPoint publicKey of
                     Inl e \<Rightarrow> Inl e
                   | Inr compressed \<Rightarrow>
                       Inr \<lparr>Kty = ''EC'', Crv = ''secp256k1'', jwk_X = x, jwk_Y = y,
                            Kid = base64_EncodeToString L (hashSHA256 L compressed)\<rparr>)))"

text \<open>The public half of a private key, \<^verbatim>\<open>&privateKey.PublicKey\<close>.\<close>

definition PublicKey_of :: "PrivateKey \<Rightarrow> PublicKey" where
  "PublicKey_of key = \<lparr>Curve = Curve key, X = X key, Y = Y key\<rparr>"

definition CreateDIDWBADocument ::
  "'w libs \<Rightarrow> string \<Rightarrow> int option \<Rightarrow> string list \<Rightarrow> string option \<Rightarrow> 'w
     \<Rightarrow> (error + DIDWBADocument \<times> PrivateKey) \<times> 'w" where
  "CreateDIDWBADocument L hostname port pathSegments agentDescriptionURL w =
     (case validateHostname L hostname of
        Some e \<Rightarrow> (Inl e, w)
      | None \<Rightarrow>
          (case buildDID L hostname port pathSegments of
             Inl e \<Rightarrow> (Inl e, w)
           | Inr did \<Rightarrow>
               (case ecdsa_GenerateKey L Secp256k1 w of
                  (Inl e, w1) \<Rightarrow> (Inl (ErrorfW ''failed to generate key pair'' e), w1)
                | (Inr key, w1) \<Rightarrow>
                    (case buildPublicKeyJWK L (PublicKey_of key) of
                       Inl e \<Rightarrow> (Inl e, w1)
                     | Inr jwk \<Rightarrow>
                         (let verificationMethodID = did @ ''#key-1'';
                              d = \<lparr>doc_Context =
                                     [''https://www.w3.org/ns/did/v1'',
                                      ''https://w3id.org/security/suites/jws-2020/v1'',
                                      ''https://w3id.org/security/suites/secp256k1-2019/v1''],
                                   doc_ID = did,
                                   doc_VerificationMethod =
                                     [[(''id'', AString verificationMethodID),
                                       (''type'', AString ''EcdsaSecp256k1VerificationKey2019''),
                                       (''controller'', AString did),
                                       (''publicKeyJwk'', AJWK jwk)]],
                                   doc_Authentication = [verificationMethodID],
                                   doc_Service =
                                     (case agentDescriptionURL of
                                        None \<Rightarrow> []
                                      | Some url \<Rightarrow>
                                          [\<lparr>service_ID = did @ ''#ad'',
                                            service_Type = ''AgentDescription'',
                                            ServiceEndpoint = url\<rparr>])\<rparr>
                          in (Inr (d, key), w1))))))"

text \<open>
  A document reaches a verifier as JSON.  Decoding JSON into a \<^verbatim>\<open>map[string]any\<close> gives
  a map for every JSON object, so the struct that \<^verbatim>\<open>CreateDIDWBADocument\<close> put under
  \<^verbatim>\<open>publicKeyJwk\<close> comes back as the map of its five JSON fields.
\<close>

definition JWK_fields :: "JWK \<Rightarrow> (string \<times> any) list" where
  "JWK_fields j =
     [(''kty'', AString (Kty j)), (''crv'', AString (Crv j)), (''x'', AString (jwk_X j)),
      (''y'', AString (jwk_Y j)), (''kid'', AString (Kid j))]"

fun decoded_value :: "any \<Rightarrow> any" where
  "decoded_value (AJWK j) = AMap (JWK_fields j)"
| "decoded_value a = a"

definition decoded_document :: "DIDWBADocument \<Rightarrow> DIDWBADocument" where
  "decoded_document d =
     d\<lparr>doc_VerificationMethod :=
         map (map (\<lambda>(k, a). (k, decoded_value a))) (doc_VerificationMethod d)\<rparr>"


section \<open>Access tokens\<close>

definition time_Unix :: "time \<Rightarrow> int" where
  "time_Unix t = t div Second"

definition CreateAccessToken ::
  "'w libs \<Rightarrow> string \<Rightarrow> jwt_key \<Rightarrow> string \<Rightarrow> duration \<Rightarrow> 'w \<Rightarrow> (error + string) \<times> 'w" where
  "CreateAccessToken L did privateKey algorithm exp w =
     (let (now, w1) = time_Now L w;
          claims = [(''sub'', AString did),
                    (''iat'', ANumber (time_Unix now)),
                    (''exp'', ANumber (time_Unix (time_Add now exp)))]
      in case jwt_SignedString L (jwt_GetSigningMethod L algorithm) claims privateKey of
           Inl e \<Rightarrow> (Inl (ErrorfW ''failed to sign token'' e), w1)
         | Inr signedToken \<Rightarrow> (Inr signedToken, w1))"

definition VerifyAccessToken ::
  "'w libs \<Rightarrow> string \<Rightarrow> jwt_key \<Rightarrow> string \<Rightarrow> 'w \<Rightarrow> (error + string) \<times> 'w" where
  "VerifyAccessToken L tokenString publicKey algorithm w =
     (case jwt_Parse L tokenString
             (\<lambda>method. if jwt_GetSigningMethod L algorithm \<noteq> Some method
                then Inl (ErrorNew ''unexpected signing method'')
                else Inr publicKey) w of
        (Inl e, w1) \<Rightarrow> (Inl (ErrorfW ''failed to parse token'' e), w1)
      | (Inr token, w1) \<Rightarrow>
          if \<not> Valid token then (Inl (ErrorNew ''token is invalid''), w1)
          else
            (case Claims token of
               None \<Rightarrow> (Inl (ErrorNew ''invalid token claims''), w1)
             | Some claims \<Rightarrow>
                 (case as_string (map_of claims ''sub'') of
                    None \<Rightarrow> (Inl (ErrorNew '''sub' claim is missing or not a string''), w1)
                  | Some did \<Rightarrow> (Inr did, w1))))"

definition LoadJWTPrivateKeyFromPEM :: "'w libs \<Rightarrow> bytes \<Rightarrow> error + jwt_key" where
  "LoadJWTPrivateKeyFromPEM L pemBytes =
     (case jwt_ParseRSAPrivateKeyFromPEM L pemBytes of
        Inr key \<Rightarrow> Inr (RSAKey key)
      | Inl e1 \<Rightarrow>
     (case jwt_ParseECPrivateKeyFromPEM L pemBytes of
        Inr key \<Rightarrow> Inr (ECKey key)
      | Inl e2 \<Rightarrow>
     (case jwt_ParseEdPrivateKeyFromPEM L pemBytes of
        Inr key \<Rightarrow> Inr (EdKey key)
      | Inl e3 \<Rightarrow>
     (case anpcrypto_PrivateKeyFromPEM L pemBytes of
        Inr key \<Rightarrow> Inr (ANPKey key)
      | Inl e4 \<Rightarrow> Inl (ErrorfW ''failed to parse private key'' e4)))))"

definition LoadJWTPublicKeyFromPEM :: "'w libs \<Rightarrow> bytes \<Rightarrow> error + jwt_key" where
  "LoadJWTPublicKeyFromPEM L pemBytes =
     (case jwt_ParseRSAPublicKeyFromPEM L pemBytes of
        Inr key \<Rightarrow> Inr (RSAKey key)
      | Inl e1 \<Rightarrow>
     (case jwt_ParseECPublicKeyFromPEM L pemBytes of
        Inr key \<Rightarrow> Inr (ECKey key)
      | Inl e2 \<Rightarrow>
     (case jwt_ParseEdPublicKeyFromPEM L pemBytes of
        Inr key \<Rightarrow> Inr (EdKey key)
      | Inl e3 \<Rightarrow>
     (case pem_Decode L pemBytes of
        None \<Rightarrow> Inl (ErrorNew ''failed to decode PEM block'')
      | Some block \<Rightarrow>
          (case x509_ParsePKIXPublicKey L block of
             Inl e \<Rightarrow> Inl (ErrorfW ''failed to parse public key'' e)
           | Inr (kind, pk) \<Rightarrow>
               if kind = ''*rsa.PublicKey'' \<or> kind = ''*ecdsa.PublicKey''
                  \<or> kind = ''ed25519.PublicKey''
               then Inr (PKIXKey kind pk)
               else Inl (ErrorNew (''unsupported public key type: '' @ kind)))))))"

section \<open>Resolving a DID document\<close>

text \<open>\<^verbatim>\<open>strings.SplitN(s, sep, n)\<close> for a separator of one character and \<open>n \<ge> 0\<close>.\<close>

fun SplitN :: "string \<Rightarrow> char \<Rightarrow> nat \<Rightarrow> string list" where
  "SplitN s sep 0 = []"
| "SplitN s sep (Suc 0) = [s]"
| "SplitN s sep (Suc (Suc n)) =
     (case Index s sep of
        None \<Rightarrow> [s]
      | Some i \<Rightarrow> take i s # SplitN (drop (i + 1) s) sep (Suc n))"

definition ReplaceAll :: "string \<Rightarrow> char \<Rightarrow> char \<Rightarrow> string" where
  "ReplaceAll s old new = map (\<lambda>c. if c = old then new else c) s"

definition didToURL :: "'w libs \<Rightarrow> string \<Rightarrow> error + string" where
  "didToURL L did =
     (if \<not> HasPrefix did ''did:wba:''
      then Inl (ErrorNew ''invalid DID format: must start with 'did:wba:' '')
      else
        (let parts = SplitN did (CHR '':'') 4
         in if length parts < 3 then Inl (ErrorNew ''invalid DID format: missing domain'')
            else
              (case url_PathUnescape L (parts ! 2) of
                 Inl e \<Rightarrow> Inl (ErrorfW ''failed to unescape domain'' e)
               | Inr domain \<Rightarrow>
                   (let path = (if 3 < length parts
                                then ''/'' @ ReplaceAll (parts ! 3) (CHR '':'') (CHR ''/'')
                                       @ ''/did.json''
                                else ''/.well-known/did.json'')
                    in Inr (''https://'' @ domain @ path)))))"

text \<open>An \<^verbatim>\<open>*http.Client\<close> is known by what its \<^verbatim>\<open>Get\<close> does.\<close>

type_synonym 'w http_Client = "string \<Rightarrow> 'w \<Rightarrow> (error + http_Response) \<times> 'w"

definition StatusOK :: int where
  "StatusOK = 200"

definition ResolveDIDWBADocument ::
  "'w libs \<Rightarrow> string \<Rightarrow> 'w http_Client option \<Rightarrow> 'w \<Rightarrow> (error + DIDWBADocument) \<times> 'w" where
  "ResolveDIDWBADocument L did httpClient w =
     (case didToURL L did of
        Inl e \<Rightarrow> (Inl e, w)
      | Inr url \<Rightarrow>
          (let client = (case httpClient of None \<Rightarrow> defaultHTTPClient_Get L | Some c \<Rightarrow> c)
           in case client url w of
                (Inl e, w1) \<Rightarrow> (Inl (ErrorfW ''failed to get DID document'' e), w1)
              | (Inr resp, w1) \<Rightarrow>
                  if resp_StatusCode resp \<noteq> StatusOK
                  then (Inl (ErrorNew ''failed to get DID document: status code''), w1)
                  else
                    (case resp_Body resp of
                       Inl e \<Rightarrow> (Inl (ErrorfW ''failed to read response body'' e), w1)
                     | Inr bodyBytes \<Rightarrow>
                         (case sonic_Unmarshal_doc L bodyBytes of
                            Inl e \<Rightarrow> (Inl (ErrorfW ''failed to decode DID document'' e), w1)
                          | Inr doc \<Rightarrow>
                              if doc_ID doc \<noteq> did
                              then (Inl (ErrorNew ''DID document ID mismatch''), w1)
                              else (Inr doc, w1)))))"

section \<open>The verifier\<close>

definition BearerScheme :: string where
  "BearerScheme = ''Bearer ''"

definition DefaultJWTAlgorithm :: string where
  "DefaultJWTAlgorithm = ''RS256''"

definition DefaultAccessTokenExpiration :: duration where
  "DefaultAccessTokenExpiration = 60 * Minute"

definition DefaultTimestampExpiration :: duration where
  "DefaultTimestampExpiration = 5 * Minute"

definition DefaultDIDCacheExpiration :: duration where
  "DefaultDIDCacheExpiration = 15 * Minute"

definition DefaultNonceExpiration :: duration where
  "DefaultNonceExpiration = 6 * Minute"

definition DefaultTimestampTolerance :: duration where
  "DefaultTimestampTolerance = 1 * Minute"

text \<open>
  The configuration.  A \<^verbatim>\<open>NonceValidator\<close> is known by what its \<^verbatim>\<open>Validate\<close> does with a
  DID and a nonce, a resolver by what it does with a DID, and the clock \<^verbatim>\<open>Now\<close> by the
  reading it gives; each of them may change the world.  A nil field is \<open>None\<close>.  The
  \<^verbatim>\<open>context.Context\<close> is handed through to the validator and the resolver and is not
  modelled.
\<close>

record 'w DidWbaVerifierConfig =
  JWTPrivateKey :: "jwt_key option"
  JWTPublicKey :: "jwt_key option"
  JWTPrivateKeyPEM :: bytes
  JWTPublicKeyPEM :: bytes
  JWTAlgorithm :: string
  AccessTokenExpiration :: duration
  TimestampExpiration :: duration
  DIDCacheExpiration :: duration
  AllowedDomains :: "string list"
  NonceValidator :: "(string \<Rightarrow> string \<Rightarrow> 'w \<Rightarrow> (bool \<times> error option) \<times> 'w) option"
  ResolveDIDDocument :: "(string \<Rightarrow> 'w \<Rightarrow> (error + DIDWBADocument) \<times> 'w) option"
  Now :: "('w \<Rightarrow> time \<times> 'w) option"
  HTTPClient :: "'w http_Client option"

record didCacheEntry =
  doc :: DIDWBADocument
  expiresAt :: time

record 'w DidWbaVerifier =
  config :: "'w DidWbaVerifierConfig"
  didCache :: "string \<rightharpoonup> didCacheEntry"
  now :: "'w \<Rightarrow> time \<times> 'w"

definition NewDidWbaVerifier ::
  "'w libs \<Rightarrow> 'w DidWbaVerifierConfig \<Rightarrow> error + 'w DidWbaVerifier" where
  "NewDidWbaVerifier L config0 =
     (if NonceValidator config0 = None then Inl (Sentinel ErrNonceValidatorMissing)
      else
        (let c1 = (if JWTAlgorithm config0 = []
                   then config0\<lparr>JWTAlgorithm := DefaultJWTAlgorithm\<rparr> else config0);
             c2 = (if AccessTokenExpiration c1 = 0
                   then c1\<lparr>AccessTokenExpiration := DefaultAccessTokenExpiration\<rparr> else c1);
             c3 = (if TimestampExpiration c2 = 0
                   then c2\<lparr>TimestampExpiration := DefaultTimestampExpiration\<rparr> else c2);
             c4 = (if DIDCacheExpiration c3 = 0
                   then c3\<lparr>DIDCacheExpiration := DefaultDIDCacheExpiration\<rparr> else c3)
         in case (if JWTPrivateKey c4 = None \<and> 0 < length (JWTPrivateKeyPEM c4)
                  then (case LoadJWTPrivateKeyFromPEM L (JWTPrivateKeyPEM c4) of
                          Inl e \<Rightarrow> Inl (ErrorfW ''loading JWT private key'' e)
                        | Inr key \<Rightarrow> Inr (c4\<lparr>JWTPrivateKey := Some key\<rparr>))
                  else Inr c4) of
              Inl e \<Rightarrow> Inl e
            | Inr c5 \<Rightarrow>
                (case (if JWTPublicKey c5 = None \<and> 0 < length (JWTPublicKeyPEM c5)
                       then (case LoadJWTPublicKeyFromPEM L (JWTPublicKeyPEM c5) of
                               Inl e \<Rightarrow> Inl (ErrorfW ''loading JWT public key'' e)
                             | Inr key \<Rightarrow> Inr (c5\<lparr>JWTPublicKey := Some key\<rparr>))
                       else Inr c5) of
                   Inl e \<Rightarrow> Inl e
                 | Inr c6 \<Rightarrow>
                     (let clock = (case Now c6 of None \<Rightarrow> time_Now L | Some f \<Rightarrow> f);
                          c7 = c6\<lparr>Now := Some clock\<rparr>
                      in Inr \<lparr>config = c7, didCache = Map.empty, now = clock\<rparr>))))"

definition ensureDomainAllowed :: "'w DidWbaVerifier \<Rightarrow> string \<Rightarrow> error option" where
  "ensureDomainAllowed v domain =
     (if length (AllowedDomains (config v)) = 0 then None
      else if list_ex (\<lambda>allowed. EqualFold (TrimSpace allowed) domain) (AllowedDomains (config v))
      then None
      else Some (NewErrorWithStatus (Errorf ErrDomainNotAllowed domain) StatusForbidden))"

definition handleBearerAuth ::
  "'w libs \<Rightarrow> 'w DidWbaVerifier \<Rightarrow> string \<Rightarrow> 'w \<Rightarrow> (error + (string \<times> any) list) \<times> 'w" where
  "handleBearerAuth L v authorization w =
     (let tokenString = TrimPrefix authorization BearerScheme
      in case JWTPublicKey (config v) of
           None \<Rightarrow>
             (Inl (NewErrorWithStatus (Sentinel ErrJWTConfigMissing) StatusInternalServerError), w)
         | Some publicKey \<Rightarrow>
             (case VerifyAccessToken L tokenString publicKey (JWTAlgorithm (config v)) w of
                (Inl e, w1) \<Rightarrow>
                  (Inl (NewErrorWithStatus
                     (WrapAuthError ErrInvalidToken ''verify access token'' (Some e))
                     StatusUnauthorized), w1)
              | (Inr did, w1) \<Rightarrow> (Inr [(''did'', AString did)], w1)))"

definition verifyTimestamp ::
  "'w libs \<Rightarrow> 'w DidWbaVerifier \<Rightarrow> string \<Rightarrow> 'w \<Rightarrow> error option \<times> 'w" where
  "verifyTimestamp L v timestampStr w =
     (case time_Parse L timestampStr of
        Inl e \<Rightarrow>
          (Some (NewErrorWithStatus
             (WrapAuthError ErrTimestampInvalid ''parse timestamp'' (Some e)) StatusBadRequest), w)
      | Inr requestTime \<Rightarrow>
          (let (currentTime, w1) = now v w
           in if time_After requestTime (time_Add currentTime DefaultTimestampTolerance)
              then (Some (NewErrorWithStatus (Sentinel ErrTimestampFuture) StatusBadRequest), w1)
              else if TimestampExpiration (config v) < time_Sub currentTime requestTime
              then (Some (NewErrorWithStatus (Sentinel ErrTimestampExpired) StatusUnauthorized),
                    w1)
              else (None, w1)))"

definition verifyNonce ::
  "'w DidWbaVerifier \<Rightarrow> string \<Rightarrow> string \<Rightarrow> 'w \<Rightarrow> error option \<times> 'w" where
  "verifyNonce v did nonce w =
     (case NonceValidator (config v) of
        None \<Rightarrow> (Some (Panic ''nil NonceValidator''), w)
      | Some validator \<Rightarrow>
          (case validator did nonce w of
             ((ok, Some e), w1) \<Rightarrow>
               (Some (NewErrorWithStatus
                  (WrapAuthError ErrNonceValidatorFailure ''validate nonce'' (Some e))
                  StatusInternalServerError), w1)
           | ((ok, None), w1) \<Rightarrow>
               if \<not> ok
               then (Some (NewErrorWithStatus (Sentinel ErrNonceInvalid) StatusUnauthorized), w1)
               else (None, w1)))"

text \<open>
  \<^verbatim>\<open>resolveAndCacheDID\<close>.  The clock is read only when the cache holds an entry for the
  DID (the condition is \<^verbatim>\<open>exists && v.now().UTC().Before(entry.expiresAt)\<close>), and once
  more for the expiry of a new entry.
\<close>

definition cache_lookup ::
  "'w DidWbaVerifier \<Rightarrow> string \<Rightarrow> 'w \<Rightarrow> DIDWBADocument option \<times> 'w" where
  "cache_lookup v did w =
     (case didCache v did of
        None \<Rightarrow> (None, w)
      | Some entry \<Rightarrow>
          (let (t, w1) = now v w
           in if time_Before t (expiresAt entry) then (Some (doc entry), w1) else (None, w1)))"

definition resolveAndCacheDID ::
  "'w libs \<Rightarrow> 'w DidWbaVerifier \<Rightarrow> string \<Rightarrow> 'w
     \<Rightarrow> (error + DIDWBADocument) \<times> 'w DidWbaVerifier \<times> 'w" where
  "resolveAndCacheDID L v did w =
     (case cache_lookup v did w of
        (Some d, w1) \<Rightarrow> (Inr d, v, w1)
      | (None, w1) \<Rightarrow>
          (case (case ResolveDIDDocument (config v) of
                   Some resolver \<Rightarrow> resolver did w1
                 | None \<Rightarrow> ResolveDIDWBADocument L did (HTTPClient (config v)) w1) of
             (Inl e, w2) \<Rightarrow>
               (Inl (NewErrorWithStatus
                  (WrapAuthError ErrDIDResolution ''resolve DID document'' (Some e))
                  StatusUnauthorized), v, w2)
           | (Inr d, w2) \<Rightarrow>
               (case cache_lookup v did w2 of
                  (Some d', w3) \<Rightarrow> (Inr d', v, w3)
                | (None, w3) \<Rightarrow>
                    (let (t, w4) = now v w3;
                         entry = \<lparr>doc = d,
                                  expiresAt = time_Add t (DIDCacheExpiration (config v))\<rparr>
                     in (Inr d, v\<lparr>didCache := (didCache v)(did \<mapsto> entry)\<rparr>, w4)))))"

definition verifySignature ::
  "'w libs \<Rightarrow> string \<Rightarrow> DIDWBADocument \<Rightarrow> string \<Rightarrow> bool \<times> string" where
  "verifySignature L authHeader d serviceDomain =
     (case parseAuthHeader authHeader of
        Inl e \<Rightarrow> (False, error_Error e)
      | Inr parts \<Rightarrow>
          if DID parts \<noteq> doc_ID d then (False, ''DID mismatch'')
          else
            (case selectVerificationMethodForFragment d (VerificationMethod parts) of
               Inl e \<Rightarrow> (False, ''Verification method not found: '' @ error_Error e)
             | Inr (methodMap, fragment) \<Rightarrow>
                 (case CreateVerificationMethod L methodMap of
                    Inl e \<Rightarrow> (False, ''Failed to create verifier: '' @ error_Error e)
                  | Inr verifier \<Rightarrow>
                      (let payload = \<lparr>payload_Nonce = Nonce parts,
                                      payload_Time = Timestamp parts,
                                      payload_Service = serviceDomain,
                                      payload_DID = DID parts\<rparr>
                       in case payload_marshal L payload of
                            Inl e \<Rightarrow> (False, ''Failed to marshal payload: '' @ error_Error e)
                          | Inr payloadBytes \<Rightarrow>
                              if VerifySignature L verifier payloadBytes (Signature parts)
                              then (True, ''Verification successful'')
                              else (False, ''Signature verification failed'')))))"

definition handleDidAuth ::
  "'w libs \<Rightarrow> 'w DidWbaVerifier \<Rightarrow> string \<Rightarrow> string \<Rightarrow> 'w
     \<Rightarrow> (error + (string \<times> any) list) \<times> 'w DidWbaVerifier \<times> 'w" where
  "handleDidAuth L v authorization domain w =
     (case ensureDomainAllowed v domain of
        Some e \<Rightarrow> (Inl e, v, w)
      | None \<Rightarrow>
     (case parseAuthHeader authorization of
        Inl e \<Rightarrow>
          (Inl (NewErrorWithStatus
             (WrapAuthError ErrInvalidAuthHeader ''parse auth header'' (Some e))
             StatusUnauthorized), v, w)
      | Inr headerParts \<Rightarrow>
     (case verifyTimestamp L v (Timestamp headerParts) w of
        (Some e, w1) \<Rightarrow> (Inl e, v, w1)
      | (None, w1) \<Rightarrow>
     (case verifyNonce v (DID headerParts) (Nonce headerParts) w1 of
        (Some e, w2) \<Rightarrow> (Inl e, v, w2)
      | (None, w2) \<Rightarrow>
     (case resolveAndCacheDID L v (DID headerParts) w2 of
        (Inl e, v1, w3) \<Rightarrow> (Inl e, v1, w3)
      | (Inr didDocument, v1, w3) \<Rightarrow>
     (case verifySignature L authorization didDocument domain of
        (False, message) \<Rightarrow>
          (Inl (NewErrorWithStatus (Errorf ErrInvalidSignature message) StatusForbidden),
           v1, w3)
      | (True, message) \<Rightarrow>
     (case JWTPrivateKey (config v1) of
        None \<Rightarrow>
          (Inl (NewErrorWithStatus (Sentinel ErrJWTConfigMissing) StatusInternalServerError),
           v1, w3)
      | Some privateKey \<Rightarrow>
     (case CreateAccessToken L (DID headerParts) privateKey (JWTAlgorithm (config v1))
             (AccessTokenExpiration (config v1)) w3 of
        (Inl e, w4) \<Rightarrow>
          (Inl (NewErrorWithStatus
             (WrapAuthError ErrTokenCreation ''create access token'' (Some e))
             StatusInternalServerError), v1, w4)
      | (Inr accessToken, w4) \<Rightarrow>
          (Inr [(''access_token'', AString accessToken),
                (''token_type'', AString ''bearer''),
                (''did'', AString (DID headerParts))], v1, w4)))))))))"

definition VerifyAuthHeaderContext ::
  "'w libs \<Rightarrow> 'w DidWbaVerifier \<Rightarrow> string \<Rightarrow> string \<Rightarrow> 'w
     \<Rightarrow> (error + (string \<times> any) list) \<times> 'w DidWbaVerifier \<times> 'w" where
  "VerifyAuthHeaderContext L v authorization domain w =
     (if authorization = []
      then (Inl (NewErrorWithStatus (Sentinel ErrMissingAuthHeader) StatusUnauthorized), v, w)
      else if HasPrefix authorization BearerScheme
      then (case handleBearerAuth L v authorization w of (r, w1) \<Rightarrow> (r, v, w1))
      else handleDidAuth L v authorization domain w)"

text \<open>
  A \<^verbatim>\<open>MemoryNonceValidator\<close> as the \<^verbatim>\<open>NonceValidator\<close> of a verifier: the validator is
  the part \<open>get w\<close> of the world, \<open>put\<close> stores its new state, and the clock it reads is
  \<^verbatim>\<open>time.Now\<close>.
\<close>

definition MemoryNonceValidator_Validate ::
  "'w libs \<Rightarrow> ('w \<Rightarrow> MemoryNonceValidator) \<Rightarrow> (MemoryNonceValidator \<Rightarrow> 'w \<Rightarrow> 'w)
     \<Rightarrow> string \<Rightarrow> string \<Rightarrow> 'w \<Rightarrow> (bool \<times> error option) \<times> 'w" where
  "MemoryNonceValidator_Validate L get put did nonce w =
     (let (t, w1) = time_Now L w;
          (r, m) = Validate (get w1) t did nonce
      in (r, put m w1))"


section \<open>The authenticator\<close>

text \<open>
  The client side.  \<^verbatim>\<open>loadOnce\<close> is the \<^verbatim>\<open>sync.Once\<close>: whether its function has run.
  The single-flight group only matters to concurrent callers; one call at a time runs
  the function it is given.
\<close>

record Authenticator =
  cfg_DIDDocumentPath :: string
  cfg_PrivateKeyPath :: string
  didDocument :: "DIDWBADocument option"
  privateKey :: "PrivateKey option"
  loadOnce :: bool
  loadErr :: "error option"
  tokens :: "string \<rightharpoonup> string"
  authHeaders :: "string \<rightharpoonup> string"

definition AuthorizationHeader :: string where
  "AuthorizationHeader = ''Authorization''"

definition getDomain :: "'w libs \<Rightarrow> string \<Rightarrow> error + string" where
  "getDomain L target =
     (case url_Parse_Host L target of
        Inl e \<Rightarrow> Inl (ErrorfW ''parse url'' e)
      | Inr host \<Rightarrow> Inr host)"

definition ensureMaterial ::
  "'w libs \<Rightarrow> Authenticator \<Rightarrow> 'w \<Rightarrow> error option \<times> Authenticator \<times> 'w" where
  "ensureMaterial L a w =
     (if loadOnce a then (loadErr a, a, w)
      else
        (let a0 = a\<lparr>loadOnce := True\<rparr>
         in if didDocument a0 \<noteq> None \<and> privateKey a0 \<noteq> None then (loadErr a0, a0, w)
            else
              (case os_ReadFile L (cfg_DIDDocumentPath a0) w of
                 (Inl e, w1) \<Rightarrow>
                   (let a1 = a0\<lparr>loadErr := Some (ErrorfW ''read DID document'' e)\<rparr>
                    in (loadErr a1, a1, w1))
               | (Inr docBytes, w1) \<Rightarrow>
                   (case sonic_Unmarshal_doc L docBytes of
                      Inl e \<Rightarrow>
                        (let a1 = a0\<lparr>loadErr := Some (ErrorfW ''decode DID document'' e)\<rparr>
                         in (loadErr a1, a1, w1))
                    | Inr d \<Rightarrow>
                        (case os_ReadFile L (cfg_PrivateKeyPath a0) w1 of
                           (Inl e, w2) \<Rightarrow>
                             (let a1 = a0\<lparr>loadErr := Some (ErrorfW ''read private key'' e)\<rparr>
                              in (loadErr a1, a1, w2))
                         | (Inr keyBytes, w2) \<Rightarrow>
                             (case anpcrypto_PrivateKeyFromPEM L keyBytes of
                                Inl e \<Rightarrow>
                                  (let a1 = a0\<lparr>loadErr :=
                                                Some (ErrorfW ''decode private key'' e)\<rparr>
                                   in (loadErr a1, a1, w2))
                              | Inr key \<Rightarrow>
                                  (let a1 = a0\<lparr>didDocument := Some d, privateKey := Some key\<rparr>
                                   in (loadErr a1, a1, w2))))))))"

text \<open>The cache look-up of \<^verbatim>\<open>header\<close>, made before and inside the single-flight call.\<close>

definition cached_header :: "Authenticator \<Rightarrow> string \<Rightarrow> (string \<rightharpoonup> string) option" where
  "cached_header a domain =
     (case tokens a domain of
        Some token \<Rightarrow> Some [AuthorizationHeader \<mapsto> BearerScheme @ token]
      | None \<Rightarrow>
          (case authHeaders a domain of
             Some h \<Rightarrow> Some [AuthorizationHeader \<mapsto> h]
           | None \<Rightarrow> None))"

definition header ::
  "'w libs \<Rightarrow> Authenticator \<Rightarrow> string \<Rightarrow> bool \<Rightarrow> 'w
     \<Rightarrow> (error + (string \<rightharpoonup> string)) \<times> Authenticator \<times> 'w" where
  "header L a target force w =
     (case getDomain L target of
        Inl e \<Rightarrow> (Inl e, a, w)
      | Inr domain \<Rightarrow>
          (case (if \<not> force then cached_header a domain else None) of
             Some hs \<Rightarrow> (Inr hs, a, w)
           | None \<Rightarrow>
          (case (if \<not> force then cached_header a domain else None) of
             Some hs \<Rightarrow> (Inr hs, a, w)
           | None \<Rightarrow>
               (case ensureMaterial L a w of
                  (Some e, a1, w1) \<Rightarrow>
                    (Inl (ErrorfW ''load authentication material'' e), a1, w1)
                | (None, a1, w1) \<Rightarrow>
                    (case GenerateAuthHeader L (privateKey a1) (didDocument a1) domain w1 of
                       (Inl e, w2) \<Rightarrow> (Inl (ErrorfW ''generate header'' e), a1, w2)
                     | (Inr h, w2) \<Rightarrow>
                         (let headerString = AuthHeader_String h;
                              a2 = a1\<lparr>authHeaders := (authHeaders a1)(domain \<mapsto> headerString)\<rparr>
                          in (Inr [AuthorizationHeader \<mapsto> headerString], a2, w2)))))))"

definition GenerateHeader ::
  "'w libs \<Rightarrow> Authenticator \<Rightarrow> string \<Rightarrow> 'w
     \<Rightarrow> (error + (string \<rightharpoonup> string)) \<times> Authenticator \<times> 'w" where
  "GenerateHeader L a target w = header L a target False w"

definition GenerateHeaderForce ::
  "'w libs \<Rightarrow> Authenticator \<Rightarrow> string \<Rightarrow> 'w
     \<Rightarrow> (error + (string \<rightharpoonup> string)) \<times> Authenticator \<times> 'w" where
  "GenerateHeaderForce L a target w = header L a target True w"

text \<open>\<^verbatim>\<open>header.Get(name)\<close>: the empty string when the name is absent.\<close>

definition Header_Get :: "(string \<rightharpoonup> string) \<Rightarrow> string \<Rightarrow> string" where
  "Header_Get h name = (case h name of None \<Rightarrow> [] | Some v \<Rightarrow> v)"

definition UpdateFromResponse ::
  "'w libs \<Rightarrow> Authenticator \<Rightarrow> string \<Rightarrow> (string \<rightharpoonup> string) \<Rightarrow> Authenticator" where
  "UpdateFromResponse L a target hdr =
     (let token = Header_Get hdr AuthorizationHeader
      in if \<not> HasPrefix token BearerScheme then a
         else
           (case getDomain L target of
              Inl e \<Rightarrow> a
            | Inr domain \<Rightarrow>
                a\<lparr>tokens := (tokens a)(domain \<mapsto> TrimPrefix token BearerScheme)\<rparr>))"

definition ClearToken :: "'w libs \<Rightarrow> Authenticator \<Rightarrow> string \<Rightarrow> Authenticator" where
  "ClearToken L a target =
     (case getDomain L target of
        Inl e \<Rightarrow> a
      | Inr domain \<Rightarrow>
          a\<lparr>tokens := (tokens a)(domain := None),
            authHeaders := (authHeaders a)(domain := None)\<rparr>)"

section \<open>The clients\<close>

text \<open>
  A request, as the two clients build it.  The body is the reader that was handed in;
  \<^verbatim>\<open>httpClient.Fetch\<close> hands the same reader to both of its requests, and how much of it
  is left for the second one is not modelled.
\<close>

datatype reader = Reader bytes

record http_Request =
  req_Method :: string
  req_URL :: string
  req_Header :: "string \<rightharpoonup> string"
  req_Body :: "reader option"

type_synonym 'w RoundTripper = "http_Request \<Rightarrow> 'w \<Rightarrow> (error + http_Response) \<times> 'w"

text \<open>
  The calls a client makes to the authenticator and to the executor below it, in their
  order.  Every function of this section returns them as its last component, next to the
  result, the authenticator and the world it leaves.
\<close>

datatype call =
    Call_GenerateHeader string
  | Call_GenerateHeaderForce string
  | Call_ClearToken string
  | Call_UpdateFromResponse string
  | Call_RoundTrip http_Request
  | Call_Do http_Request

definition StatusUnauthorized_http :: int where
  "StatusUnauthorized_http = 401"

text \<open>
  \<^verbatim>\<open>(t *Transport) RoundTrip(req)\<close>.  \<open>base\<close> is the field \<^verbatim>\<open>Base\<close> and \<open>dflt\<close> stands
  for \<^verbatim>\<open>http.DefaultTransport\<close>; the authenticator is \<open>None\<close> when the field is nil.
\<close>

definition RoundTrip ::
  "'w libs \<Rightarrow> 'w RoundTripper option \<Rightarrow> 'w RoundTripper \<Rightarrow> Authenticator option
     \<Rightarrow> http_Request \<Rightarrow> 'w
     \<Rightarrow> (error + http_Response) \<times> Authenticator option \<times> 'w \<times> call list" where
  "RoundTrip L base dflt auth req w =
     (case auth of
        None \<Rightarrow> (Inl (ErrorNew ''authenticator is required''), None, w, [])
      | Some a \<Rightarrow>
          (case GenerateHeader L a (req_URL req) w of
             (Inl e, a1, w1) \<Rightarrow>
               (Inl (ErrorfW ''generating auth header'' e), Some a1, w1,
                [Call_GenerateHeader (req_URL req)])
           | (Inr headers, a1, w1) \<Rightarrow>
               (let clonedReq = req\<lparr>req_Header := req_Header req ++ headers\<rparr>;
                    rt = (case base of None \<Rightarrow> dflt | Some b \<Rightarrow> b)
                in case rt clonedReq w1 of
                     (Inl e, w2) \<Rightarrow>
                       (Inl e, Some a1, w2,
                        [Call_GenerateHeader (req_URL req), Call_RoundTrip clonedReq])
                   | (Inr resp, w2) \<Rightarrow>
                       (Inr resp,
                        Some (UpdateFromResponse L a1 (req_URL req) (resp_Header resp)), w2,
                        [Call_GenerateHeader (req_URL req), Call_RoundTrip clonedReq,
                         Call_UpdateFromResponse (req_URL req)]))))"

text \<open>The result of \<^verbatim>\<open>httpClient.Fetch\<close>.\<close>

record Response =
  Response_StatusCode :: int
  Response_URL :: string
  Response_ContentType :: string
  Response_Encoding :: string
  Response_Header :: "string \<rightharpoonup> string"
  Response_Body :: bytes

text \<open>The body argument of \<^verbatim>\<open>Fetch\<close>, by its dynamic type.\<close>

datatype body_arg =
    Body_nil
  | Body_bytes bytes
  | Body_Reader reader
  | Body_other any

text \<open>
  \<^verbatim>\<open>performRequest\<close>: build the request with \<^verbatim>\<open>http.NewRequestWithContext\<close> (which may
  refuse the method or the URL), set the headers, and hand it to the HTTP client.
\<close>

definition performRequest ::
  "(string \<Rightarrow> string \<Rightarrow> error option) \<Rightarrow> 'w RoundTripper \<Rightarrow> string \<Rightarrow> string
     \<Rightarrow> reader option \<Rightarrow> (string \<rightharpoonup> string) \<Rightarrow> 'w
     \<Rightarrow> (error + http_Response) \<times> 'w \<times> call list" where
  "performRequest newRequest doReq method target bodyReader reqHeaders w =
     (case newRequest method target of
        Some e \<Rightarrow> (Inl (ErrorfW ''create request'' e), w, [])
      | None \<Rightarrow>
          (let req = \<lparr>req_Method = method, req_URL = target, req_Header = reqHeaders,
                      req_Body = bodyReader\<rparr>
           in case doReq req w of (r, w1) \<Rightarrow> (r, w1, [Call_Do req])))"

definition MethodGet :: string where
  "MethodGet = ''GET''"

text \<open>
  \<^verbatim>\<open>(c *httpClient) Fetch(ctx, method, target, headers, body)\<close>.  \<open>newRequest\<close> is the check
  that \<^verbatim>\<open>http.NewRequestWithContext\<close> makes, \<open>doReq\<close> is \<^verbatim>\<open>c.httpClient.Do\<close>, and \<open>a\<close> is the
  authenticator \<^verbatim>\<open>c.authenticator\<close>.
\<close>

definition Fetch ::
  "'w libs \<Rightarrow> (string \<Rightarrow> string \<Rightarrow> error option) \<Rightarrow> 'w RoundTripper \<Rightarrow> Authenticator
     \<Rightarrow> string \<Rightarrow> string \<Rightarrow> (string \<rightharpoonup> string) option \<Rightarrow> body_arg \<Rightarrow> 'w
     \<Rightarrow> (error + Response) \<times> Authenticator \<times> 'w \<times> call list" where
  "Fetch L newRequest doReq a method0 target headers body w =
     (let method = (if method0 = [] then MethodGet else method0);
          reqHeaders0 = (case headers of None \<Rightarrow> Map.empty | Some hs \<Rightarrow> hs);
          with_type = (\<lambda>hs. if hs ''Content-Type'' = None
                            then hs(''Content-Type'' \<mapsto> ''application/json'') else hs)
      in case (case body of
                 Body_nil \<Rightarrow> Inr (None, reqHeaders0)
               | Body_bytes b \<Rightarrow> Inr (Some (Reader b), with_type reqHeaders0)
               | Body_Reader r \<Rightarrow> Inr (Some r, reqHeaders0)
               | Body_other x \<Rightarrow>
                   (case sonic_Marshal_any L x of
                      Inl e \<Rightarrow> Inl (ErrorfW ''marshal request body'' e)
                    | Inr jsonBody \<Rightarrow> Inr (Some (Reader jsonBody), with_type reqHeaders0))) of
           Inl e \<Rightarrow> (Inl e, a, w, [])
         | Inr (bodyReader, reqHeaders1) \<Rightarrow>
     (case GenerateHeader L a target w of
        (Inl e, a1, w1) \<Rightarrow>
          (Inl (ErrorfW ''failed to get auth header'' e), a1, w1, [Call_GenerateHeader target])
      | (Inr authHeader, a1, w1) \<Rightarrow>
     (let reqHeaders2 = reqHeaders1 ++ authHeader;
          tr1 = [Call_GenerateHeader target]
      in case performRequest newRequest doReq method target bodyReader reqHeaders2 w1 of
           (Inl e, w2, c1) \<Rightarrow> (Inl (ErrorfW ''send request'' e), a1, w2, tr1 @ c1)
         | (Inr resp1, w2, c1) \<Rightarrow>
     (case (if resp_StatusCode resp1 = StatusUnauthorized_http
            then
              (let a2 = ClearToken L a1 target;
                   tr2 = tr1 @ c1 @ [Call_ClearToken target]
               in case GenerateHeaderForce L a2 target w2 of
                    (Inl e, a3, w3) \<Rightarrow>
                      (Inl (ErrorfW ''refresh auth header'' e), a3, w3,
                       tr2 @ [Call_GenerateHeaderForce target])
                  | (Inr refreshedAuthHeader, a3, w3) \<Rightarrow>
                      (let reqHeaders3 = reqHeaders2 ++ refreshedAuthHeader;
                           tr3 = tr2 @ [Call_GenerateHeaderForce target]
                       in case performRequest newRequest doReq method target bodyReader
                                 reqHeaders3 w3 of
                            (Inl e, w4, c2) \<Rightarrow>
                              (Inl (ErrorfW ''retry request'' e), a3, w4, tr3 @ c2)
                          | (Inr resp2, w4, c2) \<Rightarrow> (Inr resp2, a3, w4, tr3 @ c2)))
            else (Inr resp1, a1, w2, tr1 @ c1)) of
        (Inl e, a4, w5, tr) \<Rightarrow> (Inl e, a4, w5, tr)
      | (Inr resp, a4, w5, tr) \<Rightarrow>
          (let (a5, tr5) =
                 (if 200 \<le> resp_StatusCode resp \<and> resp_StatusCode resp < 300
                  then (UpdateFromResponse L a4 target (resp_Header resp),
                        tr @ [Call_UpdateFromResponse target])
                  else (a4, tr))
           in case resp_Body resp of
                Inl e \<Rightarrow> (Inl (ErrorfW ''read response body'' e), a5, w5, tr5)
              | Inr bodyBytes \<Rightarrow>
                  (Inr \<lparr>Response_StatusCode = resp_StatusCode resp,
                        Response_URL = target,
                        Response_ContentType = Header_Get (resp_Header resp) ''Content-Type'',
                        Response_Encoding = Header_Get (resp_Header resp) ''Content-Encoding'',
                        Response_Header = resp_Header resp,
                        Response_Body = bodyBytes\<rparr>, a5, w5, tr5))))))"


section \<open>A small instance of the libraries\<close>

text \<open>
  To run the model on concrete requests the library functions are instantiated: ECDSA on
  the curve \<open>y\<^sup>2 = x\<^sup>3 + 7\<close> over the field of 43 elements (the equation of secp256k1
  over a small field; the group has the prime order 31 and is generated by \<open>(2, 31)\<close>), a
  16-bit checksum in the place of SHA-256, base64url without padding, RFC 3339 times in
  UTC, and access tokens that name their algorithm, subject and key in clear.  The world
  holds the clock, the next UUID, a counter in the place of the random source, and the
  in-memory nonce validator of the server.
\<close>

record world =
  w_clock :: time
  w_uuid :: string
  w_rand :: nat
  w_nonces :: MemoryNonceValidator

type_synonym point = "(int \<times> int) option"

definition inv_p :: "int \<Rightarrow> int" where
  "inv_p a = a ^ 41 mod 43"

definition inv_n :: "int \<Rightarrow> int" where
  "inv_n a = a ^ 29 mod 31"

definition base_point :: point where
  "base_point = Some (2, 31)"

definition point_add :: "point \<Rightarrow> point \<Rightarrow> point" where
  "point_add P Q =
     (case P of
        None \<Rightarrow> Q
      | Some (x1, y1) \<Rightarrow>
          (case Q of
             None \<Rightarrow> P
           | Some (x2, y2) \<Rightarrow>
               if x1 = x2 \<and> (y1 + y2) mod 43 = 0 then None
               else
                 (let l = (if x1 = x2 \<and> y1 = y2
                           then 3 * x1 * x1 * inv_p (2 * y1) mod 43
                           else (y2 - y1) * inv_p ((x2 - x1) mod 43) mod 43);
                      x3 = (l * l - x1 - x2) mod 43;
                      y3 = (l * (x1 - x3) - y1) mod 43
                  in Some (x3, y3))))"

fun point_mul :: "nat \<Rightarrow> point \<Rightarrow> point" where
  "point_mul k P = (if k = 0 then None else point_add P (point_mul (k - 1) P))"

declare point_mul.simps [simp del]

definition digest_int :: "bytes \<Rightarrow> int" where
  "digest_int d = big_SetBytes d mod 31"

definition tiny_IsOnCurve :: "curve \<Rightarrow> int \<Rightarrow> int \<Rightarrow> bool" where
  "tiny_IsOnCurve cv x y \<longleftrightarrow>
     0 \<le> x \<and> x < 43 \<and> 0 \<le> y \<and> y < 43 \<and> (y * y - x * x * x - 7) mod 43 = 0"

definition tiny_GenerateKey :: "curve \<Rightarrow> world \<Rightarrow> (error + PrivateKey) \<times> world" where
  "tiny_GenerateKey cv w =
     (let d = w_rand w mod 30 + 1;
          w1 = w\<lparr>w_rand := w_rand w + 1\<rparr>
      in case point_mul d base_point of
           None \<Rightarrow> (Inl (ErrorNew ''point at infinity''), w1)
         | Some (x, y) \<Rightarrow> (Inr \<lparr>Curve = cv, X = x, Y = y, D = int d\<rparr>, w1))"

definition tiny_Sign :: "PrivateKey \<Rightarrow> bytes \<Rightarrow> world \<Rightarrow> (error + int \<times> int) \<times> world" where
  "tiny_Sign key digest w =
     (let k = w_rand w mod 30 + 1;
          w1 = w\<lparr>w_rand := w_rand w + 1\<rparr>
      in case point_mul k base_point of
           None \<Rightarrow> (Inl (ErrorNew ''point at infinity''), w1)
         | Some (x, y) \<Rightarrow>
             (let r = x mod 31;
                  s = inv_n (int k) * (digest_int digest + r * D key) mod 31
              in if r = 0 \<or> s = 0 then (Inl (ErrorNew ''zero signature component''), w1)
                 else (Inr (r, s), w1)))"

definition tiny_Verify :: "PublicKey \<Rightarrow> bytes \<Rightarrow> int \<Rightarrow> int \<Rightarrow> bool" where
  "tiny_Verify pub digest r s \<longleftrightarrow>
     1 \<le> r \<and> r < 31 \<and> 1 \<le> s \<and> s < 31 \<and>
     (let c = inv_n s;
          u1 = digest_int digest * c mod 31;
          u2 = r * c mod 31
      in case point_add (point_mul (nat u1) base_point)
                (point_mul (nat u2) (Some (X pub, Y pub))) of
           None \<Rightarrow> False
         | Some (x, y) \<Rightarrow> x mod 31 = r)"

definition checksum16 :: "bytes \<Rightarrow> bytes" where
  "checksum16 b =
     (let h = foldl (\<lambda>a c. (a * 31 + of_char c) mod 65521) (7::int) b
      in [char_of (h div 256), char_of (h mod 256)])"

subsection \<open>base64url\<close>

definition b64_alphabet :: string where
  "b64_alphabet = ''ABCDEFGHIJKLMNOPQRSTUVWXYZabcdefghijklmnopqrstuvwxyz0123456789-_''"

definition b64_char :: "nat \<Rightarrow> char" where
  "b64_char n = b64_alphabet ! (n mod 64)"

fun b64_encode_nat :: "nat list \<Rightarrow> string" where
  "b64_encode_nat [] = []"
| "b64_encode_nat [a] = [b64_char (a div 4), b64_char (a mod 4 * 16)]"
| "b64_encode_nat [a, b] =
     [b64_char (a div 4), b64_char (a mod 4 * 16 + b div 16), b64_char (b mod 16 * 4)]"
| "b64_encode_nat (a # b # c # rest) =
     b64_char (a div 4) # b64_char (a mod 4 * 16 + b div 16)
       # b64_char (b mod 16 * 4 + c div 64) # b64_char (c mod 64) # b64_encode_nat rest"

definition b64_encode :: "bytes \<Rightarrow> string" where
  "b64_encode b = b64_encode_nat (map of_char b)"

fun b64_decode_nat :: "nat list \<Rightarrow> bytes option" where
  "b64_decode_nat [] = Some []"
| "b64_decode_nat [x] = None"
| "b64_decode_nat [x, y] = Some [char_of (x * 4 + y div 16)]"
| "b64_decode_nat [x, y, z] =
     Some [char_of (x * 4 + y div 16), char_of (y mod 16 * 16 + z div 4)]"
| "b64_decode_nat (x # y # z # u # rest) =
     (case b64_decode_nat rest of
        None \<Rightarrow> None
      | Some bs \<Rightarrow>
          Some (char_of (x * 4 + y div 16) # char_of (y mod 16 * 16 + z div 4)
                  # char_of (z mod 4 * 64 + u) # bs))"

definition b64_decode :: "string \<Rightarrow> error + bytes" where
  "b64_decode s =
     (if list_all (\<lambda>c. Index b64_alphabet c \<noteq> None) s
      then (case b64_decode_nat (map (\<lambda>c. the (Index b64_alphabet c)) s) of
              None \<Rightarrow> Inl (ErrorNew ''illegal base64 data'')
            | Some b \<Rightarrow> Inr b)
      else Inl (ErrorNew ''illegal base64 data''))"

subsection \<open>RFC 3339 in UTC\<close>

definition days_from_civil :: "int \<Rightarrow> int \<Rightarrow> int \<Rightarrow> int" where
  "days_from_civil y0 m d =
     (let y = (if m \<le> 2 then y0 - 1 else y0);
          era = y div 400;
          yoe = y - era * 400;
          doy = (153 * (if 2 < m then m - 3 else m + 9) + 2) div 5 + d - 1;
          doe = yoe * 365 + yoe div 4 - yoe div 100 + doy
      in era * 146097 + doe - 719468)"

definition civil_from_days :: "int \<Rightarrow> int \<times> int \<times> int" where
  "civil_from_days z0 =
     (let z = z0 + 719468;
          era = z div 146097;
          doe = z - era * 146097;
          yoe = (doe - doe div 1460 + doe div 36524 - doe div 146096) div 365;
          doy = doe - (365 * yoe + yoe div 4 - yoe div 100);
          mp = (5 * doy + 2) div 153;
          d = doy - (153 * mp + 2) div 5 + 1;
          m = (if mp < 10 then mp + 3 else mp - 9);
          y = yoe + era * 400
      in (if m \<le> 2 then y + 1 else y, m, d))"

definition digits2 :: "int \<Rightarrow> string" where
  "digits2 i = [char_of (48 + nat i div 10 mod 10), char_of (48 + nat i mod 10)]"

definition digits4 :: "int \<Rightarrow> string" where
  "digits4 i = digits2 (i div 100) @ digits2 (i mod 100)"

definition format_RFC3339 :: "time \<Rightarrow> string" where
  "format_RFC3339 t =
     (let secs = t div Second;
          days = secs div 86400;
          sod = secs mod 86400
      in case civil_from_days days of
           (y, m, d) \<Rightarrow>
             digits4 y @ ''-'' @ digits2 m @ ''-'' @ digits2 d @ ''T'' @
             digits2 (sod div 3600) @ '':'' @ digits2 (sod mod 3600 div 60) @ '':'' @
             digits2 (sod mod 60) @ ''Z'')"

definition digit_val :: "char \<Rightarrow> int option" where
  "digit_val c =
     (if 48 \<le> (of_char c :: nat) \<and> (of_char c :: nat) \<le> 57
      then Some (int (of_char c) - 48) else None)"

fun number :: "string \<Rightarrow> int option" where
  "number [] = None"
| "number [c] = digit_val c"
| "number cs =
     (case (number (butlast cs), digit_val (last cs)) of
        (Some a, Some b) \<Rightarrow> Some (a * 10 + b)
      | _ \<Rightarrow> None)"

definition parse_RFC3339 :: "string \<Rightarrow> error + time" where
  "parse_RFC3339 s =
     (if length s = 20 \<and> s ! 4 = CHR ''-'' \<and> s ! 7 = CHR ''-'' \<and> s ! 10 = CHR ''T''
         \<and> s ! 13 = CHR '':'' \<and> s ! 16 = CHR '':'' \<and> s ! 19 = CHR ''Z''
      then
        (case (number (take 4 s), number (take 2 (drop 5 s)), number (take 2 (drop 8 s)),
               number (take 2 (drop 11 s)), number (take 2 (drop 14 s)),
               number (take 2 (drop 17 s))) of
           (Some y, Some m, Some d, Some hh, Some mm, Some ss) \<Rightarrow>
             if 1 \<le> m \<and> m \<le> 12 \<and> 1 \<le> d \<and> hh < 24 \<and> mm < 60 \<and> ss < 60
                \<and> civil_from_days (days_from_civil y m d) = (y, m, d)
             then Inr ((days_from_civil y m d * 86400 + hh * 3600 + mm * 60 + ss) * Second)
             else Inl (ErrorNew ''parsing time: out of range'')
         | _ \<Rightarrow> Inl (ErrorNew ''parsing time: not a number''))
      else Inl (ErrorNew ''parsing time: cannot parse''))"

subsection \<open>JSON, tokens and the rest\<close>

definition payload_json :: "authPayload \<Rightarrow> error + bytes" where
  "payload_json p =
     Inr (''{'' @ quoted ''did'' @ '':'' @ quoted (payload_DID p) @ '','' @
          quoted ''nonce'' @ '':'' @ quoted (payload_Nonce p) @ '','' @
          quoted ''service'' @ '':'' @ quoted (payload_Service p) @ '','' @
          quoted ''timestamp'' @ '':'' @ quoted (payload_Time p) @ ''}'')"

definition field_text :: "(string \<times> any) list \<Rightarrow> string \<Rightarrow> string" where
  "field_text m k = (case as_string (map_of m k) of None \<Rightarrow> [] | Some s \<Rightarrow> s)"

definition jwk_text :: "(string \<times> any) list \<Rightarrow> error + bytes" where
  "jwk_text m =
     Inr (field_text m ''kty'' @ '','' @ field_text m ''crv'' @ '','' @ field_text m ''x'' @ '',''
          @ field_text m ''y'' @ '','' @ field_text m ''kid'')"

definition jwk_of_text :: "bytes \<Rightarrow> error + JWK" where
  "jwk_of_text b =
     (case SplitN b (CHR '','') 5 of
        [k, c, x, y, i] \<Rightarrow> Inr \<lparr>Kty = k, Crv = c, jwk_X = x, jwk_Y = y, Kid = i\<rparr>
      | _ \<Rightarrow> Inl (ErrorNew ''unexpected end of JSON input''))"

definition signing_method :: "string \<Rightarrow> string option" where
  "signing_method alg =
     (if alg = ''RS256'' \<or> alg = ''ES256'' \<or> alg = ''EdDSA'' then Some alg else None)"

fun key_text :: "jwt_key \<Rightarrow> string" where
  "key_text (RSAKey b) = b"
| "key_text (ECKey b) = b"
| "key_text (EdKey b) = b"
| "key_text (ANPKey k) = decimal (D k)"
| "key_text (PKIXKey kind b) = b"

definition sub_claim :: "(string \<times> any) list \<Rightarrow> string" where
  "sub_claim claims = field_text claims ''sub''"

definition token_text :: "string option \<Rightarrow> (string \<times> any) list \<Rightarrow> jwt_key \<Rightarrow> error + string" where
  "token_text method claims key =
     (case method of
        None \<Rightarrow> Inl (Panic ''nil signing method'')
      | Some alg \<Rightarrow> Inr (alg @ '' '' @ sub_claim claims @ '' '' @ key_text key))"

definition token_parse ::
  "string \<Rightarrow> (string \<Rightarrow> error + jwt_key) \<Rightarrow> world \<Rightarrow> (error + jwt_Token) \<times> world" where
  "token_parse tokenString keyFunc w =
     (case SplitN tokenString (CHR '' '') 3 of
        [alg, sub, k] \<Rightarrow>
          (if signing_method alg = None
           then (Inl (ErrorNew ''token is unverifiable: signing method is unavailable''), w)
           else
             (case keyFunc alg of
                Inl e \<Rightarrow> (Inl (ErrorfW ''token is unverifiable'' e), w)
              | Inr key \<Rightarrow>
                  if key_text key = k
                  then (Inr \<lparr>Method = alg, Valid = True,
                              Claims = Some [(''sub'', AString sub)]\<rparr>, w)
                  else (Inl (ErrorNew ''token signature is invalid''), w)))
      | _ \<Rightarrow> (Inl (ErrorNew ''token is malformed''), w))"

definition url_host :: "string \<Rightarrow> error + string" where
  "url_host target =
     (let rest = (if prefix ''https://'' target then drop 8 target
                  else if prefix ''http://'' target then drop 7 target
                  else [])
      in Inr (takeWhile (\<lambda>c. c \<noteq> CHR ''/'') rest))"

definition tiny_libs :: "world libs" where
  "tiny_libs =
     \<lparr>sha256_Sum256 = checksum16,
      ecdsa_Sign = tiny_Sign,
      ecdsa_Verify = tiny_Verify,
      base64_EncodeToString = b64_encode,
      base64_DecodeString = b64_decode,
      sonic_Marshal_payload = payload_json,
      jsoncanonicalizer_Transform = Inr,
      sonic_Marshal_map = jwk_text,
      sonic_Unmarshal_JWK = jwk_of_text,
      IsOnCurve = tiny_IsOnCurve,
      uuid_NewString = (\<lambda>w. (w_uuid w, w)),
      time_Now = (\<lambda>w. (w_clock w, w)),
      time_Format = format_RFC3339,
      time_Parse = parse_RFC3339,
      jwt_GetSigningMethod = signing_method,
      jwt_Parse = token_parse,
      jwt_SignedString = token_text,
      jwt_ParseRSAPrivateKeyFromPEM = (\<lambda>b. Inl (ErrorNew ''invalid key'')),
      jwt_ParseECPrivateKeyFromPEM = (\<lambda>b. Inl (ErrorNew ''invalid key'')),
      jwt_ParseEdPrivateKeyFromPEM = (\<lambda>b. Inl (ErrorNew ''invalid key'')),
      anpcrypto_PrivateKeyFromPEM = (\<lambda>b. Inl (ErrorNew ''invalid key'')),
      jwt_ParseRSAPublicKeyFromPEM = (\<lambda>b. Inl (ErrorNew ''invalid key'')),
      jwt_ParseECPublicKeyFromPEM = (\<lambda>b. Inl (ErrorNew ''invalid key'')),
      jwt_ParseEdPublicKeyFromPEM = (\<lambda>b. Inl (ErrorNew ''invalid key'')),
      pem_Decode = (\<lambda>b. None),
      x509_ParsePKIXPublicKey = (\<lambda>b. Inl (ErrorNew ''invalid key'')),
      url_PathUnescape = Inr,
      url_Parse_Host = url_host,
      defaultHTTPClient_Get = (\<lambda>url w. (Inl (ErrorNew ''no route to host''), w)),
      sonic_Unmarshal_doc = (\<lambda>b. Inl (ErrorNew ''unexpected end of JSON input'')),
      os_ReadFile = (\<lambda>path w. (Inl (ErrorNew ''no such file''), w)),
      url_PathEscape = (\<lambda>s. s),
      net_ParseIP = (\<lambda>s. False),
      ecdsa_GenerateKey = tiny_GenerateKey,
      sonic_Marshal_any = (\<lambda>a. Inl (ErrorNew ''unsupported value''))\<rparr>"


section \<open>Properties of the nonce validator\<close>

lemma nonce_key_inj: "did @ '':'' @ nonce = did' @ '':'' @ nonce \<longleftrightarrow> did = did'"
  by simp

lemma Validate_accepts_iff:
  "fst (fst (Validate v tn did nonce)) \<longleftrightarrow>
     clean_expired tn (expiration v) (used v) (did @ '':'' @ nonce) = None"
  by (simp add: Validate_def Let_def)

lemma Validate_no_error: "snd (fst (Validate v tn did nonce)) = None"
  by (simp add: Validate_def Let_def)

lemma Validate_expiration: "expiration (snd (Validate v tn did nonce)) = expiration v"
  by (simp add: Validate_def Let_def)

lemma Validate_used_accepted:
  "fst (fst (Validate v tn did nonce)) \<Longrightarrow>
     used (snd (Validate v tn did nonce)) =
       (clean_expired tn (expiration v) (used v))(did @ '':'' @ nonce \<mapsto> tn)"
  by (simp add: Validate_def Let_def split: if_splits)

lemma Validate_used_rejected:
  "\<not> fst (fst (Validate v tn did nonce)) \<Longrightarrow>
     used (snd (Validate v tn did nonce)) = clean_expired tn (expiration v) (used v)"
  by (simp add: Validate_def Let_def split: if_splits)

lemma clean_expired_None: "m k = None \<Longrightarrow> clean_expired tn exp m k = None"
  by (simp add: clean_expired_def)

lemma clean_expired_Some:
  "m k = Some t \<Longrightarrow>
     clean_expired tn exp m k = (if exp < time_Sub tn t then None else Some t)"
  by (simp add: clean_expired_def)

lemma Validate_other_key_absent:
  assumes "used v k = None" and "k \<noteq> did @ '':'' @ nonce"
  shows "used (snd (Validate v tn did nonce)) k = None"
  using assms by (simp add: Validate_def Let_def clean_expired_None)

lemma Validate_resubmit_rejected:
  assumes "fst (Validate v t1 did nonce) = (True, None)"
    and "time_Sub t2 t1 \<le> expiration v"
  shows "fst (Validate (snd (Validate v t1 did nonce)) t2 did nonce) = (False, None)"
proof -
  let ?v1 = "snd (Validate v t1 did nonce)"
  from assms(1) have acc: "fst (fst (Validate v t1 did nonce))" by simp
  have "used ?v1 (did @ '':'' @ nonce) = Some t1"
    by (simp add: Validate_used_accepted [OF acc])
  moreover have "expiration ?v1 = expiration v" by (rule Validate_expiration)
  ultimately have "clean_expired t2 (expiration ?v1) (used ?v1) (did @ '':'' @ nonce) = Some t1"
    using assms(2) by (simp add: clean_expired_Some)
  then show ?thesis by (simp add: Validate_def Let_def)
qed

lemma Validate_other_did_accepted:
  assumes "did' \<noteq> did" and "used v (did' @ '':'' @ nonce) = None"
  shows "fst (Validate (snd (Validate v t1 did nonce)) t2 did' nonce) = (True, None)"
proof -
  let ?v1 = "snd (Validate v t1 did nonce)"
  from assms(1) have "did' @ '':'' @ nonce \<noteq> did @ '':'' @ nonce" by simp
  with assms(2) have "used ?v1 (did' @ '':'' @ nonce) = None"
    by (rule Validate_other_key_absent)
  then have "clean_expired t2 (expiration ?v1) (used ?v1) (did' @ '':'' @ nonce) = None"
    by (rule clean_expired_None)
  then show ?thesis by (simp add: Validate_def Let_def)
qed

lemma Validate_expired_accepted_again:
  assumes "fst (Validate v t1 did nonce) = (True, None)"
    and "expiration v < time_Sub t2 t1"
  shows "fst (Validate (snd (Validate v t1 did nonce)) t2 did nonce) = (True, None)"
proof -
  let ?v1 = "snd (Validate v t1 did nonce)"
  from assms(1) have acc: "fst (fst (Validate v t1 did nonce))" by simp
  have "used ?v1 (did @ '':'' @ nonce) = Some t1"
    by (simp add: Validate_used_accepted [OF acc])
  moreover have "expiration ?v1 = expiration v" by (rule Validate_expiration)
  ultimately have "clean_expired t2 (expiration ?v1) (used ?v1) (did @ '':'' @ nonce) = None"
    using assms(2) by (simp add: clean_expired_Some)
  then show ?thesis by (simp add: Validate_def Let_def)
qed

lemma Validate_evicts_old_entries:
  assumes "used v k = Some t" and "expiration v < time_Sub tn t"
    and "k \<noteq> did @ '':'' @ nonce"
  shows "used (snd (Validate v tn did nonce)) k = None"
  using assms by (simp add: Validate_def Let_def clean_expired_Some)

lemma Validate_keeps_live_entries:
  assumes "used v k = Some t" and "time_Sub tn t \<le> expiration v"
  shows "used (snd (Validate v tn did nonce)) k = Some t"
  using assms by (auto simp add: Validate_def Let_def clean_expired_Some)

text \<open>
  Claim C7.  The in-memory validator is keyed by \<open>did @ '':'' @ nonce\<close>.  For a pair that
  was accepted at time \<open>t1\<close>: a re-submission at \<open>t2\<close> whose age \<^verbatim>\<open>t2.Sub(t1)\<close> is
  within the expiration is rejected, as (false, no error); the same nonce under another
  DID whose key is not held is accepted; a re-submission whose age exceeds the expiration
  is accepted again, because every call first deletes each entry older than the
  expiration (and keeps each entry that is not) and only then looks the key up.
\<close>

theorem Validate_replay_window:
  "(fst (Validate v t1 did nonce) = (True, None) \<and> time_Sub t2 t1 \<le> expiration v
      \<longrightarrow> fst (Validate (snd (Validate v t1 did nonce)) t2 did nonce) = (False, None))
   \<and> (did' \<noteq> did \<and> used v (did' @ '':'' @ nonce) = None
      \<longrightarrow> fst (Validate (snd (Validate v t1 did nonce)) t2 did' nonce) = (True, None))
   \<and> (fst (Validate v t1 did nonce) = (True, None) \<and> expiration v < time_Sub t2 t1
      \<longrightarrow> fst (Validate (snd (Validate v t1 did nonce)) t2 did nonce) = (True, None))
   \<and> (used v k = Some t \<and> expiration v < time_Sub t2 t \<and> k \<noteq> did @ '':'' @ nonce
      \<longrightarrow> used (snd (Validate v t2 did nonce)) k = None)
   \<and> (used v k = Some t \<and> time_Sub t2 t \<le> expiration v
      \<longrightarrow> used (snd (Validate v t2 did nonce)) k = Some t)"
proof (intro conjI impI)
  assume "fst (Validate v t1 did nonce) = (True, None) \<and> time_Sub t2 t1 \<le> expiration v"
  then show "fst (Validate (snd (Validate v t1 did nonce)) t2 did nonce) = (False, None)"
    by (simp add: Validate_resubmit_rejected)
next
  assume "did' \<noteq> did \<and> used v (did' @ '':'' @ nonce) = None"
  then show "fst (Validate (snd (Validate v t1 did nonce)) t2 did' nonce) = (True, None)"
    by (simp add: Validate_other_did_accepted)
next
  assume "fst (Validate v t1 did nonce) = (True, None) \<and> expiration v < time_Sub t2 t1"
  then show "fst (Validate (snd (Validate v t1 did nonce)) t2 did nonce) = (True, None)"
    by (simp add: Validate_expired_accepted_again)
next
  assume "used v k = Some t \<and> expiration v < time_Sub t2 t \<and> k \<noteq> did @ '':'' @ nonce"
  then show "used (snd (Validate v t2 did nonce)) k = None"
    by (simp add: Validate_evicts_old_entries)
next
  assume "used v k = Some t \<and> time_Sub t2 t \<le> expiration v"
  then show "used (snd (Validate v t2 did nonce)) k = Some t"
    by (simp add: Validate_keeps_live_entries)
qed

theorem Validate_replay_window_witness:
  "fst (Validate (NewMemoryNonceValidator (5 * Minute)) 0 ''did:wba:example.com'' ''nonce-1'')
     = (True, None)
   \<and> time_Sub (100 * Second) 0 \<le> expiration (NewMemoryNonceValidator (5 * Minute))
   \<and> fst (Validate (snd (Validate (NewMemoryNonceValidator (5 * Minute)) 0
             ''did:wba:example.com'' ''nonce-1'')) (100 * Second)
             ''did:wba:example.com'' ''nonce-1'') = (False, None)"
proof -
  have a: "fst (Validate (NewMemoryNonceValidator (5 * Minute)) 0 ''did:wba:example.com''
             ''nonce-1'') = (True, None)"
    by (simp add: Validate_def NewMemoryNonceValidator_def clean_expired_def)
  have b: "time_Sub (100 * Second) 0 \<le> expiration (NewMemoryNonceValidator (5 * Minute))"
    by (simp add: time_Sub_def NewMemoryNonceValidator_def Minute_def Second_def
        minDuration_def maxDuration_def)
  from a b Validate_replay_window [of "NewMemoryNonceValidator (5 * Minute)" 0
      "''did:wba:example.com''" "''nonce-1''" "100 * Second"]
  show ?thesis by blast
qed

section \<open>Properties of the header codec\<close>

lemma TrimSpace_id:
  assumes "s \<noteq> []" "\<not> isSpace (hd s)" "\<not> isSpace (last s)"
  shows "TrimSpace s = s"
proof -
  from assms(1,2) have a: "dropWhile isSpace s = s" by (cases s) auto
  from assms(1,3) have "dropWhile isSpace (rev s) = rev s"
    by (cases "rev s") (auto simp: last_rev hd_rev)
  with a show ?thesis by (simp add: TrimSpace_def)
qed

lemma match_value_quoted:
  assumes "dq \<notin> set v"
  shows "match_value (v @ dq # rest) = Some (v, rest)"
proof -
  from assms have ne: "\<forall>x\<in>set v. x \<noteq> dq" by auto
  then have "dropWhile (\<lambda>c. c \<noteq> dq) (v @ dq # rest) = dq # rest"
    by (simp add: dropWhile_append3)
  moreover from ne have "takeWhile (\<lambda>c. c \<noteq> dq) (v @ dq # rest) = v"
    by (simp add: takeWhile_tail)
  ultimately show ?thesis by (simp add: match_value_def)
qed

lemma match_alt_field:
  assumes "dq \<notin> set v"
  shows "match_alt k (k @ ''='' @ quoted v @ rest) = Some (k, v, rest)"
  using assms by (simp add: match_alt_def quoted_def match_value_quoted)

lemma match_alt_other:
  assumes "\<not> prefix (k @ ''='' @ [dq]) s"
  shows "match_alt k s = None"
  using assms by (simp add: match_alt_def)

lemma match_here_did:
  assumes "dq \<notin> set v"
  shows "match_here header_keys (''did='' @ quoted v @ rest) = Some (''did'', v, rest)"
  using match_alt_field [OF assms, of "''did''" rest]
  by (simp add: header_keys_def)

lemma match_here_nonce:
  assumes "dq \<notin> set v"
  shows "match_here header_keys (''nonce='' @ quoted v @ rest) = Some (''nonce'', v, rest)"
  using match_alt_field [OF assms, of "''nonce''" rest]
  by (simp add: header_keys_def match_alt_other)

lemma match_here_timestamp:
  assumes "dq \<notin> set v"
  shows "match_here header_keys (''timestamp='' @ quoted v @ rest) = Some (''timestamp'', v, rest)"
  using match_alt_field [OF assms, of "''timestamp''" rest]
  by (simp add: header_keys_def match_alt_other)

lemma match_here_verification_method:
  assumes "dq \<notin> set v"
  shows "match_here header_keys (''verification_method='' @ quoted v @ rest)
           = Some (''verification_method'', v, rest)"
  using match_alt_field [OF assms, of "''verification_method''" rest]
  by (simp add: header_keys_def match_alt_other)

lemma match_here_signature:
  assumes "dq \<notin> set v"
  shows "match_here header_keys (''signature='' @ quoted v @ rest) = Some (''signature'', v, rest)"
  using match_alt_field [OF assms, of "''signature''" rest]
  by (simp add: header_keys_def match_alt_other)

lemma match_here_separator:
  "match_here header_keys (CHR '','' # s) = None" "match_here header_keys (CHR '' '' # s) = None"
  by (simp_all add: header_keys_def match_alt_def)

lemma FindAll_skip_separator:
  "FindAllStringSubmatch ('', '' @ s) = FindAllStringSubmatch s"
  by (simp add: match_here_separator)


lemma FindAll_field:
  assumes "match_here header_keys s = Some (k, v, rest)" "s \<noteq> []"
  shows "FindAllStringSubmatch s = (k, v) # FindAllStringSubmatch rest"
proof -
  from assms(2) obtain c cs where k: "s = c # cs" by (cases s) auto
  with assms(1) show ?thesis by simp
qed

lemma FindAll_formatted:
  assumes "dq \<notin> set d" "dq \<notin> set n" "dq \<notin> set t" "dq \<notin> set m" "dq \<notin> set g"
  shows "FindAllStringSubmatch
           (''did='' @ quoted d @ '', nonce='' @ quoted n @ '', timestamp='' @ quoted t @
            '', verification_method='' @ quoted m @ '', signature='' @ quoted g)
         = [(''did'', d), (''nonce'', n), (''timestamp'', t), (''verification_method'', m),
            (''signature'', g)]"
proof -
  have e: "FindAllStringSubmatch (''signature='' @ quoted g @ []) = [(''signature'', g)]"
    using FindAll_field [OF match_here_signature [OF assms(5), of "[]"]] by simp
  have d4: "FindAllStringSubmatch (''verification_method='' @ quoted m @ '', '' @ r)
              = (''verification_method'', m) # FindAllStringSubmatch r" for r
    using FindAll_field [OF match_here_verification_method [OF assms(4), of "'', '' @ r"]]
      FindAll_skip_separator [of r] by simp
  have d3: "FindAllStringSubmatch (''timestamp='' @ quoted t @ '', '' @ r)
              = (''timestamp'', t) # FindAllStringSubmatch r" for r
    using FindAll_field [OF match_here_timestamp [OF assms(3), of "'', '' @ r"]]
      FindAll_skip_separator [of r] by simp
  have d2: "FindAllStringSubmatch (''nonce='' @ quoted n @ '', '' @ r)
              = (''nonce'', n) # FindAllStringSubmatch r" for r
    using FindAll_field [OF match_here_nonce [OF assms(2), of "'', '' @ r"]]
      FindAll_skip_separator [of r] by simp
  have d1: "FindAllStringSubmatch (''did='' @ quoted d @ '', '' @ r)
              = (''did'', d) # FindAllStringSubmatch r" for r
    using FindAll_field [OF match_here_did [OF assms(1), of "'', '' @ r"]]
      FindAll_skip_separator [of r] by simp
  have "FindAllStringSubmatch
           (''did='' @ quoted d @ '', '' @ (''nonce='' @ quoted n @ '', '' @
             (''timestamp='' @ quoted t @ '', '' @ (''verification_method='' @ quoted m @ '', '' @
               (''signature='' @ quoted g @ [])))))
         = [(''did'', d), (''nonce'', n), (''timestamp'', t), (''verification_method'', m),
            (''signature'', g)]"
    by (simp only: d1 d2 d3 d4 e)
  then show ?thesis by simp
qed

text \<open>
  Claim C8.  Parsing the formatted header gives the header back: for every
  \<open>AuthHeader\<close> whose five values are non-empty and free of the double quote (as every
  value over the UUID, RFC 3339, fragment, DID and base64url alphabets is),
  \<open>parseAuthHeader (AuthHeader_String h) = Inr h\<close>.
\<close>

theorem parseAuthHeader_String:
  assumes "no_quote (DID h)" "no_quote (Nonce h)" "no_quote (Timestamp h)"
    "no_quote (VerificationMethod h)" "no_quote (Signature h)"
  shows "parseAuthHeader (AuthHeader_String h) = Inr h"
proof -
  let ?body = "''did='' @ quoted (DID h) @ '', nonce='' @ quoted (Nonce h) @
     '', timestamp='' @ quoted (Timestamp h) @
     '', verification_method='' @ quoted (VerificationMethod h) @
     '', signature='' @ quoted (Signature h)"
  have str: "AuthHeader_String h = ''DIDWba '' @ ?body"
    by (simp add: AuthHeader_String_def)
  have last_body: "last ?body = dq" by (simp add: quoted_def)
  have t1: "TrimSpace (AuthHeader_String h) = AuthHeader_String h"
  proof (rule TrimSpace_id)
    show "AuthHeader_String h \<noteq> []" by (simp add: str)
    show "\<not> isSpace (hd (AuthHeader_String h))" by (simp add: str isSpace_def)
    have "last (AuthHeader_String h) = dq" unfolding str using last_body by simp
    then show "\<not> isSpace (last (AuthHeader_String h))" by (simp add: isSpace_def dq_def)
  qed
  have pre: "HasPrefix (AuthHeader_String h) ''DIDWba''"
    by (simp add: str HasPrefix_def)
  have tp: "TrimPrefix (AuthHeader_String h) ''DIDWba'' = CHR '' '' # ?body"
    by (simp add: str TrimPrefix_def)
  have t2: "TrimSpace (CHR '' '' # ?body) = ?body"
  proof -
    have "TrimSpace ?body = ?body"
    proof (rule TrimSpace_id)
      show "?body \<noteq> []" by simp
      show "\<not> isSpace (hd ?body)" by (simp add: isSpace_def)
      show "\<not> isSpace (last ?body)" unfolding last_body by (simp add: isSpace_def dq_def)
    qed
    moreover have "TrimSpace (CHR '' '' # ?body) = TrimSpace ?body"
      by (simp add: TrimSpace_def isSpace_def)
    ultimately show ?thesis by simp
  qed
  have fa: "FindAllStringSubmatch ?body
         = [(''did'', DID h), (''nonce'', Nonce h), (''timestamp'', Timestamp h),
            (''verification_method'', VerificationMethod h), (''signature'', Signature h)]"
    using assms by (intro FindAll_formatted) (simp_all add: no_quote_def)
  have fold: "foldl assign_match empty_AuthHeader
         [(''did'', DID h), (''nonce'', Nonce h), (''timestamp'', Timestamp h),
            (''verification_method'', VerificationMethod h), (''signature'', Signature h)] = h"
    by (simp add: assign_match_def empty_AuthHeader_def)
  have ne: "AuthHeader_String h \<noteq> []" by (simp add: str)
  from assms have nonempty: "DID h \<noteq> []" "Nonce h \<noteq> []" "Timestamp h \<noteq> []"
    "VerificationMethod h \<noteq> []" "Signature h \<noteq> []" by (simp_all add: no_quote_def)
  show ?thesis
    unfolding parseAuthHeader_def t1 Let_def tp t2 fa fold
    using ne pre nonempty by simp
qed

theorem parseAuthHeader_String_witness:
  "no_quote ''did:wba:example.com'' \<and> no_quote ''6f1c2d3e-0a1b-4c2d-8e3f-0123456789ab''
   \<and> no_quote ''2024-01-01T00:00:00Z'' \<and> no_quote ''key-1'' \<and> no_quote ''c2lnbmF0dXJl''
   \<and> parseAuthHeader (AuthHeader_String
         \<lparr>DID = ''did:wba:example.com'', Nonce = ''6f1c2d3e-0a1b-4c2d-8e3f-0123456789ab'',
          Timestamp = ''2024-01-01T00:00:00Z'', VerificationMethod = ''key-1'',
          Signature = ''c2lnbmF0dXJl''\<rparr>)
       = Inr \<lparr>DID = ''did:wba:example.com'', Nonce = ''6f1c2d3e-0a1b-4c2d-8e3f-0123456789ab'',
          Timestamp = ''2024-01-01T00:00:00Z'', VerificationMethod = ''key-1'',
          Signature = ''c2lnbmF0dXJl''\<rparr>"
proof -
  have q: "no_quote ''did:wba:example.com''" "no_quote ''6f1c2d3e-0a1b-4c2d-8e3f-0123456789ab''"
    "no_quote ''2024-01-01T00:00:00Z''" "no_quote ''key-1''" "no_quote ''c2lnbmF0dXJl''"
    by (simp_all add: no_quote_def dq_def)
  show ?thesis
    using q parseAuthHeader_String
      [of "\<lparr>DID = ''did:wba:example.com'', Nonce = ''6f1c2d3e-0a1b-4c2d-8e3f-0123456789ab'',
          Timestamp = ''2024-01-01T00:00:00Z'', VerificationMethod = ''key-1'',
          Signature = ''c2lnbmF0dXJl''\<rparr>"]
    by simp
qed


end
